theory Spec2Isabelle
  imports Main "HOL-Library.Sublist" "HOL-Library.AList"
begin

section \<open>Strings\<close>

text \<open>
  A JavaScript string is modelled as a \<^typ>\<open>string\<close>: one \<^typ>\<open>char\<close> per code unit,
  so the model covers strings whose code units lie in the range 0..255.
\<close>

text \<open>\<^verbatim>\<open>s.includes(t)\<close>: \<open>t\<close> occurs in \<open>s\<close> as a contiguous block.\<close>

fun str_includes :: "string \<Rightarrow> string \<Rightarrow> bool" where
  "str_includes [] t = (t = [])"
| "str_includes (c # s) t = (prefix t (c # s) \<or> str_includes s t)"

text \<open>\<^verbatim>\<open>s.toLowerCase()\<close> on code units below 256.\<close>

definition lower_char :: "char \<Rightarrow> char" where
  "lower_char c =
     (let n = (of_char c :: nat)
      in if (65 \<le> n \<and> n \<le> 90) \<or> (192 \<le> n \<and> n \<le> 222 \<and> n \<noteq> 215)
         then char_of (n + 32) else c)"

definition toLowerCase :: "string \<Rightarrow> string" where
  "toLowerCase s = map lower_char s"

section \<open>Key/model rotation policy\<close>

text \<open>
  A thrown value. \<^verbatim>\<open>getErrorStatus\<close> reads four places where a status may sit; each
  is absent, a number or a string.
\<close>

datatype errval = Absent | Num int | Txt string

record js_error =
  err_name :: string
  err_message :: string
  err_status :: errval
  err_code :: errval
  err_response_status :: errval
  err_cause_status :: errval

text \<open>\<^verbatim>\<open>new Error(msg)\<close>\<close>

definition new_Error :: "string \<Rightarrow> js_error" where
  "new_Error msg =
     \<lparr>err_name = ''Error'', err_message = msg, err_status = Absent, err_code = Absent,
      err_response_status = Absent, err_cause_status = Absent\<rparr>"

text \<open>\<^verbatim>\<open>err.toString()\<close> of an Error object.\<close>

definition err_toString :: "js_error \<Rightarrow> string" where
  "err_toString e =
     (if err_name e = [] then err_message e
      else if err_message e = [] then err_name e
      else err_name e @ '': '' @ err_message e)"

fun truthy_errval :: "errval \<Rightarrow> bool" where
  "truthy_errval Absent = False"
| "truthy_errval (Num n) = (n \<noteq> 0)"
| "truthy_errval (Txt s) = (s \<noteq> [])"

text \<open>\<^verbatim>\<open>a || b\<close>\<close>

definition or_errval :: "errval \<Rightarrow> errval \<Rightarrow> errval" where
  "or_errval a b = (if truthy_errval a then a else b)"

definition getErrorStatus :: "js_error \<Rightarrow> errval" where
  "getErrorStatus err =
     or_errval (or_errval (or_errval (err_status err) (err_code err))
                 (err_response_status err)) (err_cause_status err)"

definition isRetryableError :: "js_error \<Rightarrow> bool" where
  "isRetryableError err =
     (let status = getErrorStatus err;
          message = toLowerCase (err_message err)
      in status = Num 429 \<or> status = Num 503 \<or> str_includes message ''quota''
         \<or> str_includes message ''overloaded'' \<or> str_includes message ''rate limit'')"

text \<open>\<^verbatim>\<open>err?.message || err?.toString() || "Unknown error"\<close>\<close>

definition error_msg :: "js_error \<Rightarrow> string" where
  "error_msg err =
     (if err_message err \<noteq> [] then err_message err
      else if err_toString err \<noteq> [] then err_toString err
      else ''Unknown error'')"

section \<open>Resilient invoker\<close>

text \<open>
  The loops of \<^verbatim>\<open>generateText\<close> and \<^verbatim>\<open>generateImageToFile\<close> are the same loop over
  \<^verbatim>\<open>GEMINI_KEYS\<close>; \<open>call\<close> is the adapter invoked for one key and \<open>label\<close> the prefix
  of the wrapped error. The second component of the result lists the keys handed to the
  adapter, in order.
\<close>

fun rotate_keys ::
  "string \<Rightarrow> (string \<Rightarrow> js_error + 'a) \<Rightarrow> string list \<Rightarrow> js_error option
   \<Rightarrow> (js_error + 'a) \<times> string list" where
  "rotate_keys label call [] lastError =
     (Inl (case lastError of Some e \<Rightarrow> e | None \<Rightarrow> new_Error label), [])"
| "rotate_keys label call (apiKey # rest) lastError =
     (case call apiKey of
        Inr v \<Rightarrow> (Inr v, [apiKey])
      | Inl err \<Rightarrow>
          if isRetryableError err \<and> rest \<noteq> []
          then (let (r, tried) = rotate_keys label call rest (Some err)
                in (r, apiKey # tried))
          else (Inl (new_Error (label @ '': '' @ error_msg err)), [apiKey]))"

definition no_keys_error :: js_error where
  "no_keys_error =
     new_Error ''No Gemini API keys configured. Please set them in app/server/.env file''"

section \<open>Provider client adapter: text\<close>

text \<open>
  What the provider answers, for a key and a prompt, is an input of the model. The newer interface yields a
  response with a \<^verbatim>\<open>text\<close> and the texts of the parts of its first candidate (both
  empty when absent); the older one yields a response whose \<^verbatim>\<open>text\<close> is a function
  (which may throw), a string, or something else.
\<close>

record genai_response =
  resp_text :: string
  resp_parts :: "string list"

datatype legacy_text = TextFn "js_error + string" | TextStr string | TextOther

record legacy_response =
  legacy_text :: legacy_text
  legacy_parts :: "string list"

record text_provider =
  genai_generate :: "string \<Rightarrow> string \<Rightarrow> js_error + genai_response"
  legacy_generate :: "string \<Rightarrow> string \<Rightarrow> js_error + legacy_response"

text \<open>\<^verbatim>\<open>parts?.filter(part => part.text)?.map(part => part.text)?.join("")\<close>\<close>

definition join_parts :: "string list \<Rightarrow> string" where
  "join_parts ps = concat (filter (\<lambda>t. t \<noteq> []) ps)"

definition legacy_text_attempt :: "text_provider \<Rightarrow> string \<Rightarrow> string \<Rightarrow> js_error + string" where
  "legacy_text_attempt prov apiKey prompt =
     (case legacy_generate prov apiKey prompt of
        Inl err \<Rightarrow> Inl err
      | Inr result \<Rightarrow>
          (let alt = join_parts (legacy_parts result);
               tail = (if alt \<noteq> [] then Inr alt
                       else Inl (new_Error ''Empty response from Gemini''))
           in case legacy_text result of
                TextFn (Inl err) \<Rightarrow> Inl err
              | TextFn (Inr t) \<Rightarrow> if t \<noteq> [] then Inr t else tail
              | TextStr s \<Rightarrow> Inr s
              | TextOther \<Rightarrow> tail))"

definition generateTextWithKey :: "text_provider \<Rightarrow> string \<Rightarrow> string \<Rightarrow> js_error + string" where
  "generateTextWithKey prov apiKey prompt =
     (case genai_generate prov apiKey prompt of
        Inr response \<Rightarrow>
          if resp_text response \<noteq> [] then Inr (resp_text response)
          else (let alt = join_parts (resp_parts response)
                in if alt \<noteq> [] then Inr alt else legacy_text_attempt prov apiKey prompt)
      | Inl err \<Rightarrow>
          if \<not> isRetryableError err then Inl err
          else legacy_text_attempt prov apiKey prompt)"

definition generateText ::
  "text_provider \<Rightarrow> string list \<Rightarrow> string \<Rightarrow> (js_error + string) \<times> string list" where
  "generateText prov GEMINI_KEYS prompt =
     (if GEMINI_KEYS = [] then (Inl no_keys_error, [])
      else rotate_keys ''Text generation failed''
             (\<lambda>apiKey. generateTextWithKey prov apiKey prompt) GEMINI_KEYS None)"

section \<open>Provider client adapter: images\<close>

text \<open>
  A buffer is either the decoding of a base64 string or raw bytes; the file system is a
  map from paths to buffers. Writes are assumed not to fail.
\<close>

datatype buffer = Base64 string | Raw string

type_synonym filesystem = "string \<rightharpoonup> buffer"

text \<open>
  The answer of either interface for a key, a model and a prompt: an error, or the
  inline data of the first part that has some (\<open>None\<close> when no part has).
\<close>

record image_provider =
  genai_image :: "string \<Rightarrow> string \<Rightarrow> string \<Rightarrow> js_error + string option"
  legacy_image :: "string \<Rightarrow> string \<Rightarrow> string \<Rightarrow> js_error + string option"

text \<open>
  One of the two \<^verbatim>\<open>for (const modelName of ...)\<close> loops of \<^verbatim>\<open>generateImageWithKey\<close>:
  \<open>Inr (Some fs')\<close> when a model delivered and the file was written, \<open>Inr None\<close> when the
  loop ran out, \<open>Inl err\<close> when a model failed with an error that is not retryable.
  Inline data that is the empty string counts as absent.
\<close>

fun image_models_loop ::
  "(string \<Rightarrow> js_error + string option) \<Rightarrow> string list \<Rightarrow> string \<Rightarrow> filesystem
   \<Rightarrow> js_error + filesystem option" where
  "image_models_loop gen [] outFile fs = Inr None"
| "image_models_loop gen (modelName # rest) outFile fs =
     (case gen modelName of
        Inr (Some d) \<Rightarrow>
          if d \<noteq> [] then Inr (Some (fs(outFile \<mapsto> Base64 d)))
          else image_models_loop gen rest outFile fs
      | Inr None \<Rightarrow> image_models_loop gen rest outFile fs
      | Inl err \<Rightarrow>
          if \<not> isRetryableError err then Inl err
          else image_models_loop gen rest outFile fs)"

definition legacyModels :: "string list" where
  "legacyModels = [''gemini-2.5-flash-image'', ''gemini-2.0-flash-exp-image-generation'']"

definition generateImageWithKey ::
  "image_provider \<Rightarrow> string list \<Rightarrow> filesystem \<Rightarrow> string \<Rightarrow> string \<Rightarrow> string
   \<Rightarrow> js_error + filesystem" where
  "generateImageWithKey prov IMAGE_MODEL_CANDIDATES fs apiKey prompt outFile =
     (case image_models_loop (\<lambda>m. genai_image prov apiKey m prompt) IMAGE_MODEL_CANDIDATES
             outFile fs of
        Inl err \<Rightarrow> Inl err
      | Inr (Some fs') \<Rightarrow> Inr fs'
      | Inr None \<Rightarrow>
          (case image_models_loop (\<lambda>m. legacy_image prov apiKey m prompt) legacyModels
                  outFile fs of
             Inl err \<Rightarrow> Inl err
           | Inr (Some fs') \<Rightarrow> Inr fs'
           | Inr None \<Rightarrow> Inl (new_Error ''No image data returned from Gemini'')))"

definition generateImageToFile ::
  "image_provider \<Rightarrow> string list \<Rightarrow> string list \<Rightarrow> filesystem \<Rightarrow> string \<Rightarrow> string
   \<Rightarrow> (js_error + filesystem) \<times> string list" where
  "generateImageToFile prov IMAGE_MODEL_CANDIDATES GEMINI_KEYS fs prompt outFile =
     (if GEMINI_KEYS = [] then (Inl no_keys_error, [])
      else rotate_keys ''Image generation failed''
             (\<lambda>apiKey. generateImageWithKey prov IMAGE_MODEL_CANDIDATES fs apiKey prompt outFile)
             GEMINI_KEYS None)"

section \<open>Scenarios for the rotation properties\<close>

text \<open>A call of the adapter that fails with a retryable error.\<close>

definition retryable_failure :: "(string \<Rightarrow> js_error + 'a) \<Rightarrow> string \<Rightarrow> bool" where
  "retryable_failure call apiKey =
     (case call apiKey of Inl e \<Rightarrow> isRetryableError e | Inr _ \<Rightarrow> False)"

text \<open>
  A key for which both text interfaces answer without error and without any usable
  payload: no \<^verbatim>\<open>text\<close> and no text in the parts.
\<close>

definition empty_text_payload :: "text_provider \<Rightarrow> string \<Rightarrow> string \<Rightarrow> bool" where
  "empty_text_payload prov apiKey prompt =
     (case (genai_generate prov apiKey prompt, legacy_generate prov apiKey prompt) of
        (Inr response, Inr result) \<Rightarrow>
          resp_text response = [] \<and> join_parts (resp_parts response) = []
          \<and> (legacy_text result = TextFn (Inr []) \<or> legacy_text result = TextOther)
          \<and> join_parts (legacy_parts result) = []
      | _ \<Rightarrow> False)"

text \<open>An answer of an image interface that carries no image data.\<close>

definition no_image_data :: "js_error + string option \<Rightarrow> bool" where
  "no_image_data r = (r = Inr None \<or> r = Inr (Some []))"

definition empty_image_payload ::
  "image_provider \<Rightarrow> string list \<Rightarrow> string \<Rightarrow> string \<Rightarrow> bool" where
  "empty_image_payload prov IMAGE_MODEL_CANDIDATES apiKey prompt =
     (list_all (\<lambda>m. no_image_data (genai_image prov apiKey m prompt)) IMAGE_MODEL_CANDIDATES
      \<and> list_all (\<lambda>m. no_image_data (legacy_image prov apiKey m prompt)) legacyModels)"

text \<open>
  Example providers, whatever the prompt. Key \<open>k1\<close> is over quota on both interfaces, key \<open>k2\<close> is rejected
  as invalid, key \<open>k3\<close> works, and key \<open>k0\<close> is answered with an empty payload.
\<close>

definition quota_error :: js_error where
  "quota_error = (new_Error ''Too many requests'')\<lparr>err_status := Num 429\<rparr>"

definition invalid_key_error :: js_error where
  "invalid_key_error = (new_Error ''API key not valid'')\<lparr>err_status := Num 400\<rparr>"

definition example_text_provider :: text_provider where
  "example_text_provider =
     \<lparr>genai_generate = (\<lambda>k p. if k = ''k1'' then Inl quota_error
                            else if k = ''k2'' then Inl invalid_key_error
                            else if k = ''k0'' then Inr \<lparr>resp_text = [], resp_parts = []\<rparr>
                            else Inr \<lparr>resp_text = ''{}'', resp_parts = []\<rparr>),
      legacy_generate = (\<lambda>k p. if k = ''k1'' then Inl quota_error
                             else if k = ''k0''
                             then Inr \<lparr>legacy_text = TextFn (Inr []), legacy_parts = []\<rparr>
                             else Inr \<lparr>legacy_text = TextStr ''{}'', legacy_parts = []\<rparr>)\<rparr>"

definition example_image_provider :: image_provider where
  "example_image_provider =
     \<lparr>genai_image = (\<lambda>k m p. if k = ''k1'' then Inl quota_error
                           else if k = ''k2'' then Inl invalid_key_error
                           else if k = ''k0'' then Inr None
                           else Inr (Some ''aGVsbG8='')),
      legacy_image = (\<lambda>k m p. if k = ''k1'' then Inl quota_error
                            else if k = ''k0'' then Inr None
                            else Inr (Some ''aGVsbG8=''))\<rparr>"

section \<open>String operations of the runtime\<close>

definition dq :: char where "dq = CHR 0x22"
definition sq :: char where "sq = CHR 0x27"
definition nl :: char where "nl = CHR 0x0A"

text \<open>White space and line terminators among the code units below 256.\<close>

definition is_space :: "char \<Rightarrow> bool" where
  "is_space c = (of_char c \<in> {9, 10, 11, 12, 13, 32, 160 :: nat})"

text \<open>\<^verbatim>\<open>s.trim()\<close>\<close>

definition trim :: "string \<Rightarrow> string" where
  "trim s = rev (dropWhile is_space (rev (dropWhile is_space s)))"

text \<open>\<^verbatim>\<open>s.split(sep)\<close> for a separator of one character, and \<^verbatim>\<open>xs.join(sep)\<close>.\<close>

fun split_on :: "char \<Rightarrow> string \<Rightarrow> string list" where
  "split_on sep [] = [[]]"
| "split_on sep (c # s) =
     (if c = sep then [] # split_on sep s
      else (case split_on sep s of [] \<Rightarrow> [[c]] | w # ws \<Rightarrow> (c # w) # ws))"

fun join :: "string \<Rightarrow> string list \<Rightarrow> string" where
  "join sep [] = []"
| "join sep [x] = x"
| "join sep (x # y # xs) = x @ sep @ join sep (y # xs)"

text \<open>
  The first occurrence of \<open>pat\<close> in \<open>s\<close>: the text pre it and the text post it.
\<close>

fun find_first :: "string \<Rightarrow> string \<Rightarrow> (string \<times> string) option" where
  "find_first pat [] = (if pat = [] then Some ([], []) else None)"
| "find_first pat (c # s) =
     (if prefix pat (c # s) then Some ([], drop (length pat) (c # s))
      else (case find_first pat s of
              None \<Rightarrow> None
            | Some (pre, post) \<Rightarrow> Some (c # pre, post)))"

text \<open>
  The replacement string of \<^verbatim>\<open>String.prototype.replace\<close>, for a pattern without capture
  groups: \<^verbatim>\<open>$$\<close> is a dollar sign, \<^verbatim>\<open>$&\<close> the matched text, \<^verbatim>\<open>$`\<close> the text pre the
  match and \<^verbatim>\<open>$'\<close> the text post it; any other character stands for itself.
\<close>

fun expand_dollar :: "string \<Rightarrow> string \<Rightarrow> string \<Rightarrow> string \<Rightarrow> string" where
  "expand_dollar [] matched pre post = []"
| "expand_dollar [c] matched pre post = [c]"
| "expand_dollar (c # d # r) matched pre post =
     (if c = CHR ''$'' \<and> d = CHR ''$'' then CHR ''$'' # expand_dollar r matched pre post
      else if c = CHR ''$'' \<and> d = CHR ''&'' then matched @ expand_dollar r matched pre post
      else if c = CHR ''$'' \<and> d = CHR 0x60 then pre @ expand_dollar r matched pre post
      else if c = CHR ''$'' \<and> d = sq then post @ expand_dollar r matched pre post
      else c # expand_dollar (d # r) matched pre post)"

text \<open>\<^verbatim>\<open>s.replace(pat, repl)\<close> with a string pattern: the first occurrence only.\<close>

definition replace_first :: "string \<Rightarrow> string \<Rightarrow> string \<Rightarrow> string" where
  "replace_first pat repl s =
     (case find_first pat s of
        None \<Rightarrow> s
      | Some (pre, post) \<Rightarrow> pre @ expand_dollar repl pat pre post @ post)"

text \<open>
  A regular expression is modelled by its matcher: applied to the text that starts at a
  position, it gives the length of the match there, if any. All matchers below give a
  positive length.
\<close>

type_synonym matcher = "string \<Rightarrow> nat option"

definition lit :: "string \<Rightarrow> matcher" where
  "lit pat s = (if pat \<noteq> [] \<and> prefix pat s then Some (length pat) else None)"

text \<open>
  \<^verbatim>\<open>s.match(re)\<close> without the \<^verbatim>\<open>g\<close> flag: the leftmost match, as the text pre it,
  the matched text and the text post it.
\<close>

fun regex_search :: "matcher \<Rightarrow> string \<Rightarrow> (string \<times> string \<times> string) option" where
  "regex_search m [] = None"
| "regex_search m (c # s) =
     (case m (c # s) of
        Some n \<Rightarrow> Some ([], take n (c # s), drop n (c # s))
      | None \<Rightarrow>
          (case regex_search m s of
             None \<Rightarrow> None
           | Some (pre, matched, post) \<Rightarrow> Some (c # pre, matched, post)))"

text \<open>
  \<^verbatim>\<open>s.replace(re, f)\<close> with the \<^verbatim>\<open>g\<close> flag: every match, left to right and without
  overlap, is replaced by what \<open>f\<close> gives for the text pre the match, the matched text
  and the text post it. The first string argument is the text already passed.
\<close>

function replace_all_from ::
  "matcher \<Rightarrow> (string \<Rightarrow> string \<Rightarrow> string \<Rightarrow> string) \<Rightarrow> string \<Rightarrow> string \<Rightarrow> string" where
  "replace_all_from m f pre [] = []"
| "replace_all_from m f pre (c # s) =
     (case m (c # s) of
        None \<Rightarrow> c # replace_all_from m f (pre @ [c]) s
      | Some n \<Rightarrow>
          if n = 0 then c # replace_all_from m f (pre @ [c]) s
          else f pre (take n (c # s)) (drop n (c # s))
               @ replace_all_from m f (pre @ take n (c # s)) (drop n (c # s)))"
  by pat_completeness auto
termination
  by (relation "measure (\<lambda>(m, f, pre, s). length s)") auto

text \<open>\<^verbatim>\<open>s.replace(re, f)\<close> for a function \<open>f\<close> of the match and its offset.\<close>

definition replace_all_fn :: "matcher \<Rightarrow> (string \<Rightarrow> string \<Rightarrow> string) \<Rightarrow> string \<Rightarrow> string" where
  "replace_all_fn m f s = replace_all_from m (\<lambda>pre matched post. f pre matched) [] s"

text \<open>\<^verbatim>\<open>s.replace(re, repl)\<close> with the \<^verbatim>\<open>g\<close> flag and a replacement string.\<close>

definition replace_all :: "matcher \<Rightarrow> string \<Rightarrow> string \<Rightarrow> string" where
  "replace_all m repl s =
     replace_all_from m (\<lambda>pre matched post. expand_dollar repl matched pre post) [] s"

text \<open>\<^verbatim>\<open>s.replace(re, repl)\<close> without the \<^verbatim>\<open>g\<close> flag.\<close>

definition regex_replace_first :: "matcher \<Rightarrow> string \<Rightarrow> string \<Rightarrow> string" where
  "regex_replace_first m repl s =
     (case regex_search m s of
        None \<Rightarrow> s
      | Some (pre, matched, post) \<Rightarrow>
          pre @ expand_dollar repl matched pre post @ post)"

text \<open>The number of matches of \<^verbatim>\<open>s.match(re)\<close> with the \<^verbatim>\<open>g\<close> flag.\<close>

function count_matches :: "matcher \<Rightarrow> string \<Rightarrow> nat" where
  "count_matches m [] = 0"
| "count_matches m (c # s) =
     (case m (c # s) of
        None \<Rightarrow> count_matches m s
      | Some n \<Rightarrow> if n = 0 then count_matches m s else Suc (count_matches m (drop n (c # s))))"
  by pat_completeness auto
termination
  by (relation "measure (\<lambda>(m, s). length s)") auto

text \<open>\<^verbatim>\<open>s.split('\n').length\<close>\<close>

definition line_count :: "string \<Rightarrow> nat" where
  "line_count s = length (split_on nl s)"

section \<open>Values read from JSON, and file entries\<close>

text \<open>
  An object keeps its properties in insertion order. Numbers only matter through their
  truth value, so integers stand for them.
\<close>

datatype jsval =
  JNull | JBool bool | JNum int | JStr string | JArr "jsval list" | JObj "(string \<times> jsval) list"

text \<open>
  \<^verbatim>\<open>v.key\<close> for a key that no prototype defines (\<^verbatim>\<open>path\<close>, \<^verbatim>\<open>content\<close>); \<open>None\<close> is
  \<^verbatim>\<open>undefined\<close>. It is only used where \<open>v\<close> is not \<^verbatim>\<open>null\<close>, or behind \<^verbatim>\<open>?.\<close>.
\<close>

fun get_prop :: "jsval \<Rightarrow> string \<Rightarrow> jsval option" where
  "get_prop (JObj kvs) key = map_of kvs key"
| "get_prop v key = None"

fun truthy :: "jsval \<Rightarrow> bool" where
  "truthy JNull = False"
| "truthy (JBool b) = b"
| "truthy (JNum n) = (n \<noteq> 0)"
| "truthy (JStr s) = (s \<noteq> [])"
| "truthy (JArr xs) = True"
| "truthy (JObj kvs) = True"

definition truthy_opt :: "jsval option \<Rightarrow> bool" where
  "truthy_opt v = (case v of None \<Rightarrow> False | Some x \<Rightarrow> truthy x)"

text \<open>\<^verbatim>\<open>{ ...f, content }\<close> and \<^verbatim>\<open>f.content = content\<close> on an object.\<close>

fun set_content :: "jsval \<Rightarrow> string \<Rightarrow> jsval" where
  "set_content (JObj kvs) c = JObj (AList.update ''content'' (JStr c) kvs)"
| "set_content v c = v"

section \<open>Token substitution\<close>

text \<open>
  \<open>rx k v content\<close> stands for
  \<^verbatim>\<open>content.replace(new RegExp(`\\{\\{${k}\\}\\}`, "g"), v)\<close>: the key is spliced into the
  source of the pattern, so the outcome for an arbitrary key is left to the regular
  expression engine, which may also reject the pattern with an error.
\<close>

type_synonym token_engine = "string \<Rightarrow> string \<Rightarrow> string \<Rightarrow> js_error + string"

fun apply_replacements :: "token_engine \<Rightarrow> (string \<times> string) list \<Rightarrow> string \<Rightarrow> js_error + string" where
  "apply_replacements rx [] content = Inr content"
| "apply_replacements rx ((k, v) # rest) content =
     (case rx k v content of
        Inl err \<Rightarrow> Inl err
      | Inr content' \<Rightarrow> apply_replacements rx rest content')"

definition replace_in_file :: "token_engine \<Rightarrow> (string \<times> string) list \<Rightarrow> jsval \<Rightarrow> js_error + jsval" where
  "replace_in_file rx replacements f =
     (if \<not> truthy_opt (get_prop f ''path'') then Inr f
      else (case get_prop f ''content'' of
              Some (JStr content) \<Rightarrow>
                (case apply_replacements rx replacements content of
                   Inl err \<Rightarrow> Inl err
                 | Inr content' \<Rightarrow> Inr (set_content f content'))
            | _ \<Rightarrow> Inr f))"

fun replaceInFiles :: "token_engine \<Rightarrow> jsval list \<Rightarrow> (string \<times> string) list \<Rightarrow> js_error + jsval list" where
  "replaceInFiles rx [] replacements = Inr []"
| "replaceInFiles rx (f # files) replacements =
     (case replace_in_file rx replacements f of
        Inl err \<Rightarrow> Inl err
      | Inr f' \<Rightarrow>
          (case replaceInFiles rx files replacements of
             Inl err \<Rightarrow> Inl err
           | Inr files' \<Rightarrow> Inr (f' # files')))"

text \<open>
  For a key made of letters, digits and underscores the pattern is the literal token
  \<^verbatim>\<open>{{key}}\<close>; these are the keys the asset phase builds.
\<close>

definition literal_token_engine :: token_engine where
  "literal_token_engine k v content = Inr (replace_all (lit (''{{'' @ k @ ''}}'')) v content)"

section \<open>Notions for the frame property of the substitution\<close>

text \<open>The keys of an object, in order.\<close>

fun obj_keys :: "jsval \<Rightarrow> string list" where
  "obj_keys (JObj kvs) = map fst kvs"
| "obj_keys v = []"

text \<open>\<^verbatim>\<open>typeof f.content === "string"\<close>\<close>

definition has_string_content :: "jsval \<Rightarrow> bool" where
  "has_string_content f = (case get_prop f ''content'' of Some (JStr c) \<Rightarrow> True | _ \<Rightarrow> False)"

text \<open>Example file entries and substitutions.\<close>

definition example_files :: "jsval list" where
  "example_files =
     [JObj [(''path'', JStr ''index.html''),
            (''content'', JStr ''<img src={{HERO_IMAGE}}><img src={{PROJECT_1_IMG}}>''),
            (''note'', JNum 1)],
      JNull,
      JObj [(''path'', JStr ''data.json''), (''content'', JArr [JStr ''{{HERO_IMAGE}}''])],
      JObj [(''content'', JStr ''{{HERO_IMAGE}}'')]]"

definition example_replacements :: "(string \<times> string) list" where
  "example_replacements =
     [(''HERO_IMAGE'', ''./assets/hero.png''), (''PROJECT_1_IMG'', ''./assets/project_1.png'')]"

definition example_files_out :: "jsval list" where
  "example_files_out =
     [JObj [(''path'', JStr ''index.html''),
            (''content'', JStr ''<img src=./assets/hero.png><img src=./assets/project_1.png>''),
            (''note'', JNum 1)],
      JNull,
      JObj [(''path'', JStr ''data.json''), (''content'', JArr [JStr ''{{HERO_IMAGE}}''])],
      JObj [(''content'', JStr ''{{HERO_IMAGE}}'')]]"

section \<open>The brief and the manifest\<close>

text \<open>
  The brief as the client sends it: name, title, tagline and e-mail address are strings,
  the skills and the accent are an array of strings or one string, a project has a title
  and a description that are strings. A text field that is absent is the empty string:
  both are falsy wherever the server reads them. A project that is \<^verbatim>\<open>null\<close> is a
  project without title and description, and an absent project list is the empty list.

  \<^verbatim>\<open>about\<close> is the one field on which the server calls a string method, so its type
  matters: it is a string (the empty string when it is absent or falsy), or a truthy
  value of another type, given by the text that the engine makes of it where the server
  puts it into a string.
\<close>

record project =
  proj_title :: string
  proj_desc :: string

datatype accent_input = AccentArray "string list" | AccentString string

datatype skills_input = SkillsArray "string list" | SkillsString string | SkillsOther

datatype about_input = AboutString string | AboutOther string

record brief =
  b_name :: string
  b_title :: string
  b_tagline :: string
  b_about :: about_input
  b_email :: string
  b_accent :: accent_input
  b_skills :: skills_input
  b_projects :: "project list"

text \<open>\<^verbatim>\<open>{}\<close>, the brief without any field.\<close>

definition empty_brief :: brief where
  "empty_brief =
     \<lparr>b_name = [], b_title = [], b_tagline = [], b_about = AboutString [], b_email = [],
      b_accent = AccentString [], b_skills = SkillsOther, b_projects = []\<rparr>"

text \<open>
  The manifest, an object. \<open>m_files\<close> is whatever the generator put there (\<open>None\<close> when
  absent). \<open>projectImages\<close> is an array of prompts; or it is absent, or falsy, or has
  the \<^verbatim>\<open>length\<close> 0 without being an array (\<open>NoPrompts\<close>); or it is another truthy value
  that is not an array (\<open>NotPrompts\<close>). \<open>m_accentPalette\<close> is \<open>None\<close> when absent or falsy, an array of
  colours, or a truthy value that is not an array, given by whether its \<^verbatim>\<open>length\<close> is
  truthy (that of a string is, a number has none).
\<close>

datatype prompts_input = NoPrompts | Prompts "string list" | NotPrompts

datatype palette_input = PaletteArray "string list" | PaletteOther bool

record assets_needed =
  heroImage :: string
  projectImages :: prompts_input

record manifest =
  m_files :: "jsval option"
  m_assetsNeeded :: "assets_needed option"
  m_userData :: "brief option"
  m_accentPalette :: "palette_input option"

text \<open>\<^verbatim>\<open>a || b\<close> on strings.\<close>

definition or_else :: "string \<Rightarrow> string \<Rightarrow> string" where
  "or_else a b = (if a \<noteq> [] then a else b)"

text \<open>\<^verbatim>\<open>n.toString()\<close> and \<^verbatim>\<open>`${n}`\<close> for a natural number.\<close>

fun decimal :: "nat \<Rightarrow> string" where
  "decimal n =
     (if n < 10 then [char_of (48 + n)] else decimal (n div 10) @ [char_of (48 + n mod 10)])"

declare decimal.simps [simp del]

text \<open>An error raised by the engine itself; the wording of its message is the engine's.\<close>

definition type_error :: "string \<Rightarrow> js_error" where
  "type_error msg = (new_Error msg)\<lparr>err_name := ''TypeError''\<rparr>"

section \<open>Asset resolver\<close>






text \<open>\<^verbatim>\<open>xs[i]\<close> on an array of strings; out of range it is \<^verbatim>\<open>undefined\<close>, which is falsy.\<close>

definition nth_or_empty :: "string list \<Rightarrow> nat \<Rightarrow> string" where
  "nth_or_empty xs i = (if i < length xs then xs ! i else [])"









datatype response = Ok_response | Error_response nat js_error


section \<open>Notions for the properties of the asset phase\<close>


















section \<open>Validator and repair engine: the fields of the brief\<close>

text \<open>The constants at the head of \<^verbatim>\<open>validateAndEnhanceManifest\<close>, each with its default.\<close>

definition name_of :: "brief \<Rightarrow> string" where
  "name_of userData = or_else (b_name userData) ''Portfolio Owner''"

definition title_of :: "brief \<Rightarrow> string" where
  "title_of userData = or_else (b_title userData) ''Web Developer''"

definition tagline_of :: "brief \<Rightarrow> string" where
  "tagline_of userData = or_else (b_tagline userData) ''Creating beautiful web experiences''"

text \<open>
  \<^verbatim>\<open>about\<close> keeps a truthy value of any type; \<open>about_text\<close> is what a template and
  \<^verbatim>\<open>replace\<close> make of it.
\<close>

definition about_of :: "brief \<Rightarrow> about_input" where
  "about_of userData =
     (case b_about userData of
        AboutString s \<Rightarrow>
          AboutString (or_else s ''Passionate professional with expertise in web development'')
      | AboutOther t \<Rightarrow> AboutOther t)"

fun about_text :: "about_input \<Rightarrow> string" where
  "about_text (AboutString s) = s"
| "about_text (AboutOther t) = t"

definition email_of :: "brief \<Rightarrow> string" where
  "email_of userData = or_else (b_email userData) ''contact@example.com''"

text \<open>\<^verbatim>\<open>xs.filter(Boolean)\<close> on strings.\<close>

definition filter_Boolean :: "string list \<Rightarrow> string list" where
  "filter_Boolean xs = filter (\<lambda>s. s \<noteq> []) xs"

definition accentPalette_of :: "brief \<Rightarrow> string list" where
  "accentPalette_of userData =
     (case b_accent userData of
        AccentArray xs \<Rightarrow> filter_Boolean xs
      | AccentString s \<Rightarrow>
          filter_Boolean (map trim (split_on CHR '','' (or_else s ''#22D3EE''))))"

definition accent_of :: "brief \<Rightarrow> string" where
  "accent_of userData = or_else (nth_or_empty (accentPalette_of userData) 0) ''#22D3EE''"

definition accentSecondary_of :: "brief \<Rightarrow> string" where
  "accentSecondary_of userData =
     or_else (nth_or_empty (accentPalette_of userData) 1) (accent_of userData)"

definition accentTertiary_of :: "brief \<Rightarrow> string" where
  "accentTertiary_of userData =
     or_else (nth_or_empty (accentPalette_of userData) 2) (accentSecondary_of userData)"

definition paletteForAI :: "brief \<Rightarrow> string list" where
  "paletteForAI userData =
     filter_Boolean [accent_of userData, accentSecondary_of userData, accentTertiary_of userData]"

definition skills_of :: "brief \<Rightarrow> string list" where
  "skills_of userData =
     (case b_skills userData of
        SkillsArray xs \<Rightarrow> xs
      | SkillsString s \<Rightarrow> map trim (split_on CHR '','' s)
      | SkillsOther \<Rightarrow> [''HTML'', ''CSS'', ''JavaScript''])"

definition projects_of :: "brief \<Rightarrow> project list" where
  "projects_of userData =
     (if b_projects userData \<noteq> [] then b_projects userData
      else [\<lparr>proj_title = ''Project 1'', proj_desc = ''First project description''\<rparr>,
            \<lparr>proj_title = ''Project 2'', proj_desc = ''Second project description''\<rparr>,
            \<lparr>proj_title = ''Project 3'', proj_desc = ''Third project description''\<rparr>])"

section \<open>Validator and repair engine: the patterns\<close>

definition is_digit :: "char \<Rightarrow> bool" where
  "is_digit c = (48 \<le> (of_char c :: nat) \<and> (of_char c :: nat) \<le> 57)"

definition ascii_lower :: "char \<Rightarrow> char" where
  "ascii_lower c =
     (let n = (of_char c :: nat) in if 65 \<le> n \<and> n \<le> 90 then char_of (n + 32) else c)"

text \<open>\<^verbatim>\<open>/<h2>\s*<\/h2>/\<close> and its like: an element without content.\<close>

definition empty_tag :: "string \<Rightarrow> matcher" where
  "empty_tag tag s =
     (let opening = ''<'' @ tag @ ''>''; closing = ''</'' @ tag @ ''>''
      in if prefix opening s
         then (let r = drop (length opening) s
               in if prefix closing (dropWhile is_space r)
                  then Some (length opening + length (takeWhile is_space r) + length closing)
                  else None)
         else None)"

text \<open>\<^verbatim>\<open>/(<body[^>]*>)/\<close> and \<^verbatim>\<open>/(<main[^>]*>)/\<close>\<close>

definition open_tag :: "string \<Rightarrow> matcher" where
  "open_tag tag s =
     (let opening = ''<'' @ tag
      in if prefix opening s
         then (let r = drop (length opening) s; inner = takeWhile (\<lambda>c. c \<noteq> CHR ''>'') r
               in if length inner < length r then Some (length opening + length inner + 1)
                  else None)
         else None)"

text \<open>\<^verbatim>\<open>id=["']about["']\<close> somewhere in the text of a tag.\<close>

definition has_id :: "string \<Rightarrow> string \<Rightarrow> bool" where
  "has_id ident inner =
     (\<exists>q1\<in>{dq, sq}. \<exists>q2\<in>{dq, sq}. str_includes inner (''id='' @ [q1] @ ident @ [q2]))"

text \<open>
  \<^verbatim>\<open>/<section[^>]*id=["']about["'][^>]*>/\<close>: the tag runs up to the first \<^verbatim>\<open>>\<close> and
  the attribute lies before it.
\<close>

definition section_tag :: "string \<Rightarrow> matcher" where
  "section_tag ident s =
     (if prefix ''<section'' s
      then (let r = drop 8 s; inner = takeWhile (\<lambda>c. c \<noteq> CHR ''>'') r
            in if length inner < length r \<and> has_id ident inner
               then Some (8 + length inner + 1) else None)
      else None)"

text \<open>
  \<^verbatim>\<open>/(<section[^>]*id=["']about["'][^>]*>)([\s\S]*?)(<\/section>)/\<close>: the opening tag
  and the text up to the first closing tag after it.
\<close>

definition section_match :: "string \<Rightarrow> string \<Rightarrow> (string \<times> string) option" where
  "section_match ident html =
     (case regex_search (section_tag ident) html of
        None \<Rightarrow> None
      | Some (pre, opening, post) \<Rightarrow>
          (case find_first ''</section>'' post of
             None \<Rightarrow> None
           | Some (inner, rest) \<Rightarrow> Some (opening, inner)))"

text \<open>\<^verbatim>\<open>/<ul[^>]*>[\s\S]*?<\/ul>/i\<close>\<close>

fun find_closing_ul :: "string \<Rightarrow> nat option" where
  "find_closing_ul [] = None"
| "find_closing_ul (c # s) =
     (if map ascii_lower (take 5 (c # s)) = ''</ul>'' then Some 0
      else map_option Suc (find_closing_ul s))"

definition ul_element :: matcher where
  "ul_element s =
     (if map ascii_lower (take 3 s) = ''<ul''
      then (let r = drop 3 s; inner = takeWhile (\<lambda>c. c \<noteq> CHR ''>'') r
            in if length inner < length r
               then (case find_closing_ul (drop (length inner + 1) r) of
                       None \<Rightarrow> None
                     | Some n \<Rightarrow> Some (3 + length inner + 1 + n + 5))
               else None)
      else None)"

text \<open>
  \<^verbatim>\<open>/\{\{PROJECT_(\d)_IMG\}\}/\<close> and \<^verbatim>\<open>/\{\{PROJECT_(\d)_(IMG|TITLE|DESC)\}\}/\<close>: the
  digit of the first such marker in a text, read by \<^verbatim>\<open>parseInt\<close>.
\<close>

definition marker_at :: "string list \<Rightarrow> string \<Rightarrow> nat option" where
  "marker_at kinds s =
     (if prefix ''{{PROJECT_'' s
      then (case drop 10 s of
              [] \<Rightarrow> None
            | d # r \<Rightarrow>
                if is_digit d \<and> (\<exists>kind\<in>set kinds. prefix (''_'' @ kind @ ''}}'') r)
                then Some ((of_char d :: nat) - 48) else None)
      else None)"

fun find_marker :: "string list \<Rightarrow> string \<Rightarrow> nat option" where
  "find_marker kinds [] = None"
| "find_marker kinds (c # s) =
     (case marker_at kinds (c # s) of
        Some n \<Rightarrow> Some n
      | None \<Rightarrow> find_marker kinds s)"

text \<open>\<^verbatim>\<open>projects[projectNum - 1]\<close>\<close>

definition project_at :: "project list \<Rightarrow> nat \<Rightarrow> project option" where
  "project_at projects projectNum =
     (if 1 \<le> projectNum \<and> projectNum \<le> length projects then Some (projects ! (projectNum - 1))
      else None)"

definition in_hero :: "string \<Rightarrow> bool" where
  "in_hero beforeContent =
     (str_includes beforeContent (''class='' @ [dq] @ ''hero'' @ [dq])
      \<or> str_includes beforeContent (''class='' @ [sq] @ ''hero'' @ [sq]))"

definition mentions_id :: "string \<Rightarrow> string \<Rightarrow> bool" where
  "mentions_id ident html =
     (str_includes html (''id='' @ [dq] @ ident @ [dq])
      \<or> str_includes html (''id='' @ [sq] @ ident @ [sq]))"

section \<open>Validator and repair engine: the markup\<close>

text \<open>
  \<^verbatim>\<open>expandAboutText\<close>: \<^verbatim>\<open>aboutText.trim()\<close> is a type error when the value is truthy and
  not a string.
\<close>

definition expandAboutText :: "about_input \<Rightarrow> string \<Rightarrow> string list \<Rightarrow> js_error + string" where
  "expandAboutText about title skillsList =
     (case about of
        AboutOther t \<Rightarrow> Inl (type_error ''aboutText.trim is not a function'')
      | AboutString aboutText \<Rightarrow>
     (let firstParagraph =
            (if aboutText = [] \<or> length (trim aboutText) < 20
             then (let skillsMention =
                         (if skillsList \<noteq> [] then join '', '' (take 3 skillsList)
                          else ''web development'')
                   in ''I'' @ [sq] @ ''m a passionate '' @ or_else title ''professional'' @ '' specializing in '' @ skillsMention @ ''. I love creating innovative solutions that combine cutting-edge technology with intuitive user experiences.'')
             else if length (trim aboutText) < 100
             then (let skillsMention =
                         (if skillsList \<noteq> []
                          then '' With strong skills in '' @ join '', '' (take 4 skillsList) @ '',''
                          else [])
                   in aboutText @ skillsMention @ '' I'' @ [sq] @ ''m dedicated to delivering high-quality work.'')
             else aboutText);
          skillsContext =
            (if skillsList \<noteq> []
             then '' With expertise spanning '' @ join '', '' (take 5 skillsList) @ '',''
             else [])
      in Inr (''      <p>'' @ firstParagraph @ ''</p>'' @ [nl] @ ''      <p>'' @ skillsContext @ '' I bring a combination of technical expertise and creative problem-solving to every project. My approach focuses on creating solutions that are not only functional and scalable but also user-friendly and visually appealing.</p>'' @ [nl] @ ''      <p>When I'' @ [sq] @ ''m not working on projects, you can find me exploring new technologies, contributing to open-source communities, or sharing knowledge with fellow developers. I'' @ [sq] @ ''m always excited to take on new challenges and collaborate on innovative projects that make a real impact.</p>'')))"

text \<open>The placeholders that are filled from the brief at once.\<close>

fun substitute_projects :: "nat \<Rightarrow> project list \<Rightarrow> string \<Rightarrow> string" where
  "substitute_projects idx [] htmlContent = htmlContent"
| "substitute_projects idx (proj # rest) htmlContent =
     (let h1 = (if proj_title proj \<noteq> []
                then replace_all (lit (''{{PROJECT_'' @ decimal (idx + 1) @ ''_TITLE}}''))
                       (proj_title proj) htmlContent
                else htmlContent);
          h2 = (if proj_desc proj \<noteq> []
                then replace_all (lit (''{{PROJECT_'' @ decimal (idx + 1) @ ''_DESC}}''))
                       (proj_desc proj) h1
                else h1)
      in substitute_projects (idx + 1) rest h2)"

definition substitute_placeholders :: "nat \<Rightarrow> brief \<Rightarrow> string \<Rightarrow> string" where
  "substitute_placeholders year userData htmlContent =
     (let h1 = replace_all (lit ''{{NAME}}'') (name_of userData) htmlContent;
          h2 = replace_all (lit ''{{TITLE}}'') (title_of userData) h1;
          h3 = replace_all (lit ''{{TAGLINE}}'') (tagline_of userData) h2;
          h4 = replace_all (lit ''{{ABOUT}}'') (about_text (about_of userData)) h3;
          h5 = replace_all (lit ''{{EMAIL}}'') (email_of userData) h4;
          h6 = replace_all (lit ''{{YEAR}}'') (decimal year) h5
      in substitute_projects 0 (projects_of userData) h6)"

text \<open>The three passes over empty elements; \<open>beforeContent\<close> is the text before the match.\<close>

definition fix_empty_h2 :: "brief \<Rightarrow> string \<Rightarrow> string" where
  "fix_empty_h2 userData htmlContent =
     replace_all_fn (empty_tag ''h2'')
       (\<lambda>beforeContent matched.
          if in_hero beforeContent then ''<h2>'' @ title_of userData @ ''</h2>''
          else if mentions_id ''about'' beforeContent then ''<h2>About Me</h2>''
          else ''<h2>'' @ title_of userData @ ''</h2>'')
       htmlContent"

definition fix_empty_h3 :: "brief \<Rightarrow> string \<Rightarrow> string" where
  "fix_empty_h3 userData htmlContent =
     replace_all_fn (empty_tag ''h3'')
       (\<lambda>beforeContent matched.
          case find_marker [''IMG''] beforeContent of
            Some projectNum \<Rightarrow>
              (case project_at (projects_of userData) projectNum of
                 Some project \<Rightarrow>
                   if proj_title project \<noteq> [] then ''<h3>'' @ proj_title project @ ''</h3>''
                   else ''<h3>Project '' @ decimal projectNum @ ''</h3>''
               | None \<Rightarrow> ''<h3>Project '' @ decimal projectNum @ ''</h3>'')
          | None \<Rightarrow> ''<h3>'' @ title_of userData @ ''</h3>'')
       htmlContent"

definition fix_empty_p :: "brief \<Rightarrow> string \<Rightarrow> string" where
  "fix_empty_p userData htmlContent =
     replace_all_fn (empty_tag ''p'')
       (\<lambda>beforeContent matched.
          case find_marker [''IMG'', ''TITLE'', ''DESC''] beforeContent of
            Some projectNum \<Rightarrow>
              (case project_at (projects_of userData) projectNum of
                 Some project \<Rightarrow>
                   if proj_desc project \<noteq> [] then ''<p>'' @ proj_desc project @ ''</p>''
                   else ''<p>Project '' @ decimal projectNum @ '' description</p>''
               | None \<Rightarrow> ''<p>Project '' @ decimal projectNum @ '' description</p>'')
          | None \<Rightarrow>
              if in_hero beforeContent then ''<p>'' @ tagline_of userData @ ''</p>''
              else if mentions_id ''about'' beforeContent then ''<p>'' @ about_text (about_of userData) @ ''</p>''
              else ''<p>'' @ about_text (about_of userData) @ ''</p>'')
       htmlContent"

text \<open>
  The regions that must exist. Each step gives the markup and whether it changed it (the
  source sets \<^verbatim>\<open>fixed\<close>).
\<close>

definition navHtml :: "string \<Rightarrow> string" where
  "navHtml name =
     ''  <header>'' @ [nl]
     @ ''    <h1>'' @ name @ ''</h1>'' @ [nl]
     @ ''    <nav>'' @ [nl]
     @ ''      <a href='' @ [dq] @ ''#about'' @ [dq] @ ''>About</a>'' @ [nl]
     @ ''      <a href='' @ [dq] @ ''#skills'' @ [dq] @ ''>Skills</a>'' @ [nl]
     @ ''      <a href='' @ [dq] @ ''#projects'' @ [dq] @ ''>Projects</a>'' @ [nl]
     @ ''      <a href='' @ [dq] @ ''#contact'' @ [dq] @ ''>Contact</a>'' @ [nl]
     @ ''    </nav>'' @ [nl]
     @ ''  </header>''"

definition ensure_header :: "brief \<Rightarrow> string \<Rightarrow> string \<times> bool" where
  "ensure_header userData htmlContent =
     (if \<not> str_includes htmlContent ''<header'' \<or> \<not> str_includes htmlContent ''<nav''
      then (case regex_search (open_tag ''body'') htmlContent of
              Some (pre, bodyMatch, post) \<Rightarrow>
                (replace_first bodyMatch (bodyMatch @ [nl] @ navHtml (name_of userData))
                   htmlContent, True)
            | None \<Rightarrow> (htmlContent, False))
      else (htmlContent, False))"

definition ensure_about :: "brief \<Rightarrow> string \<Rightarrow> js_error + string \<times> bool" where
  "ensure_about userData htmlContent =
     (if \<not> mentions_id ''about'' htmlContent
      then (case regex_search (open_tag ''main'') htmlContent of
              Some (pre, mainMatch, post) \<Rightarrow>
                (case expandAboutText (about_of userData) (title_of userData) (skills_of userData) of
                   Inl err \<Rightarrow> Inl err
                 | Inr expandedAbout \<Rightarrow>
                     Inr (replace_first mainMatch
                            (mainMatch @ [nl]
                             @ ''    <section id='' @ [dq] @ ''about'' @ [dq] @ '' class='' @ [dq] @ ''about'' @ [dq] @ ''>'' @ [nl]
                             @ ''      <h2>About Me</h2>'' @ [nl]
                             @ expandedAbout @ [nl]
                             @ ''    </section>'')
                            htmlContent, True))
            | None \<Rightarrow> Inr (htmlContent, False))
      else (case section_match ''about'' htmlContent of
              Some (opening, aboutContent) \<Rightarrow>
                if \<not> str_includes aboutContent ''</p>''
                   \<or> (0 < count_matches (lit ''<p>'') aboutContent
                       \<and> count_matches (lit ''<p>'') aboutContent < 2)
                then (case expandAboutText (about_of userData) (title_of userData)
                             (skills_of userData) of
                        Inl err \<Rightarrow> Inl err
                      | Inr expandedAbout \<Rightarrow>
                          Inr (replace_first (opening @ aboutContent @ ''</section>'')
                                 (opening @ expandedAbout @ ''</section>'') htmlContent, True))
                else Inr (htmlContent, False)
            | None \<Rightarrow> Inr (htmlContent, False)))"

text \<open>\<^verbatim>\<open>skills.map(s => `        <li>${s}</li>`).join("\n")\<close>\<close>

definition skills_items :: "string list \<Rightarrow> string" where
  "skills_items skills = join [nl] (map (\<lambda>s. ''        <li>'' @ s @ ''</li>'') skills)"

definition skillsHtml :: "string list \<Rightarrow> string" where
  "skillsHtml skills =
     [nl] @ ''    <section id='' @ [dq] @ ''skills'' @ [dq] @ '' class='' @ [dq] @ ''skills'' @ [dq] @ ''>'' @ [nl]
     @ ''      <h2>Skills & Technologies</h2>'' @ [nl]
     @ ''      <ul class='' @ [dq] @ ''skills-list'' @ [dq] @ ''>'' @ [nl]
     @ skills_items skills @ [nl]
     @ ''      </ul>'' @ [nl]
     @ ''    </section>''"

definition skillsListHtml :: "string list \<Rightarrow> string" where
  "skillsListHtml skills =
     ''<ul class='' @ [dq] @ ''skills-list'' @ [dq] @ ''>'' @ [nl]
     @ skills_items skills @ [nl]
     @ ''      </ul>''"

definition ensure_skills :: "brief \<Rightarrow> string \<Rightarrow> string \<times> bool" where
  "ensure_skills userData htmlContent =
     (let skills = skills_of userData
      in if \<not> mentions_id ''skills'' htmlContent
         then (case regex_search (section_tag ''projects'') htmlContent of
                 Some (pre, projectsMatch, post) \<Rightarrow>
                   (replace_first projectsMatch
                      (skillsHtml skills @ [nl] @ ''    '' @ projectsMatch) htmlContent, True)
               | None \<Rightarrow> (htmlContent, False))
         else (case section_match ''skills'' htmlContent of
                 Some (opening, inner) \<Rightarrow>
                   (let skillsMatch1 = opening @ inner
                    in if skills \<noteq> []
                          \<and> (\<not> str_includes skillsMatch1 ''<li>''
                              \<or> count_matches (lit ''<li>'') skillsMatch1 < length skills)
                       then (replace_first (skillsMatch1 @ ''</section>'')
                               (regex_replace_first ul_element (skillsListHtml skills) skillsMatch1
                                @ ''</section>'')
                               htmlContent, True)
                       else (htmlContent, False))
               | None \<Rightarrow> (htmlContent, False)))"

definition ensure_contact :: "brief \<Rightarrow> string \<Rightarrow> string \<times> bool" where
  "ensure_contact userData htmlContent =
     (let email = email_of userData
      in if \<not> mentions_id ''contact'' htmlContent \<and> str_includes htmlContent ''</main>''
         then (replace_first ''</main>''
                 (''    <section id='' @ [dq] @ ''contact'' @ [dq] @ '' class='' @ [dq] @ ''contact'' @ [dq] @ ''>'' @ [nl]
                  @ ''      <h2>Get In Touch</h2>'' @ [nl]
                  @ ''      <p>Email: <a href='' @ [dq] @ ''mailto:'' @ email @ [dq] @ ''>'' @ email @ ''</a></p>'' @ [nl]
                  @ ''    </section>'' @ [nl]
                  @ ''  '' @ ''</main>'')
                 htmlContent, True)
         else (htmlContent, False))"

definition ensure_footer :: "nat \<Rightarrow> brief \<Rightarrow> string \<Rightarrow> string \<times> bool" where
  "ensure_footer year userData htmlContent =
     (let name = name_of userData
      in if \<not> str_includes htmlContent ''<footer'' \<and> str_includes htmlContent ''</body>''
         then (replace_first ''</body>''
                 (''  <footer>'' @ [nl]
                  @ ''    <p>'' @ [CHR 0xA9] @ '' '' @ decimal year @ '' '' @ name @ ''. All rights reserved.</p>'' @ [nl]
                  @ ''  </footer>'' @ [nl]
                  @ ''</body>'')
                 htmlContent, True)
         else (htmlContent, False))"

text \<open>
  The body of \<^verbatim>\<open>if (htmlFile && htmlFile.content) { ... }\<close> up to the point where the
  result is written back: the repaired markup and the value of \<^verbatim>\<open>fixed\<close>.
\<close>

definition fix_html :: "nat \<Rightarrow> brief \<Rightarrow> string \<Rightarrow> js_error + string \<times> bool" where
  "fix_html year userData content =
     (let h0 = substitute_placeholders year userData content;
          h1 = fix_empty_p userData (fix_empty_h3 userData (fix_empty_h2 userData h0));
          (h2, f2) = ensure_header userData h1
      in case ensure_about userData h2 of
           Inl err \<Rightarrow> Inl err
         | Inr (h3, f3) \<Rightarrow>
             (let (h4, f4) = ensure_skills userData h3;
                  (h5, f5) = ensure_contact userData h4;
                  (h6, f6) = ensure_footer year userData h5
              in Inr (h6, f2 \<or> f3 \<or> f4 \<or> f5 \<or> f6)))"

section \<open>Validator and repair engine: stylesheet and script\<close>

text \<open>The generated stylesheet, line by line.\<close>

definition enhancedCss_lines :: "string \<Rightarrow> string \<Rightarrow> string \<Rightarrow> string list" where
  "enhancedCss_lines accent accentSecondary accentTertiary =
     [''/* Comprehensive Portfolio Styles */'',
      '':root {'',
      ''  --accent-color: '' @ accent @ '';'',
      ''  --accent-secondary: '' @ accentSecondary @ '';'',
      ''  --accent-tertiary: '' @ accentTertiary @ '';'',
      ''  --accent-gradient: linear-gradient(135deg, var(--accent-secondary), var(--accent-tertiary));'',
      ''  --primary-color: '' @ accent @ '';'',
      ''  --text-color: #1e293b;'',
      ''  --bg-color: #ffffff;'',
      ''  --bg-light: #f8fafc;'',
      ''  --text-muted: #64748b;'',
      ''  --shadow: 0 4px 6px -1px rgba(0, 0, 0, 0.1), 0 2px 4px -1px rgba(0, 0, 0, 0.06);'',
      ''  --shadow-lg: 0 10px 15px -3px rgba(0, 0, 0, 0.1), 0 4px 6px -2px rgba(0, 0, 0, 0.05);'',
      ''  --radius: 8px;'',
      ''  --spacing-xs: 0.5rem;'',
      ''  --spacing-sm: 1rem;'',
      ''  --spacing-md: 2rem;'',
      ''  --spacing-lg: 4rem;'',
      ''  --spacing-xl: 6rem;'',
      ''}'',
      [],
      ''* {'',
      ''  margin: 0;'',
      ''  padding: 0;'',
      ''  box-sizing: border-box;'',
      ''}'',
      [],
      ''html {'',
      ''  scroll-behavior: smooth;'',
      ''}'',
      [],
      ''body {'',
      ''  font-family: system-ui, -apple-system, BlinkMacSystemFont, '' @ [sq] @ ''Segoe UI'' @ [sq] @ '', Roboto, '' @ [sq] @ ''Helvetica Neue'' @ [sq] @ '', Arial, sans-serif;'',
      ''  line-height: 1.6;'',
      ''  color: var(--text-color);'',
      ''  background-color: var(--bg-color);'',
      ''  margin: 0;'',
      ''  padding: 0;'',
      ''}'',
      [],
      ''/* Header & Navigation */'',
      ''header {'',
      ''  position: sticky;'',
      ''  top: 0;'',
      ''  background: rgba(255, 255, 255, 0.95);'',
      ''  backdrop-filter: blur(10px);'',
      ''  box-shadow: var(--shadow);'',
      ''  z-index: 1000;'',
      ''  padding: var(--spacing-sm) var(--spacing-md);'',
      ''}'',
      [],
      ''header h1 {'',
      ''  margin: 0;'',
      ''  font-size: clamp(1.25rem, 2vw, 1.5rem);'',
      ''  color: var(--accent-color);'',
      ''  font-weight: 700;'',
      ''}'',
      [],
      ''nav {'',
      ''  display: flex;'',
      ''  gap: var(--spacing-md);'',
      ''}'',
      [],
      ''nav a {'',
      ''  color: var(--text-color);'',
      ''  text-decoration: none;'',
      ''  font-weight: 500;'',
      ''  transition: color 0.3s ease;'',
      ''  position: relative;'',
      ''}'',
      [],
      ''nav a:hover {'',
      ''  color: var(--accent-color);'',
      ''}'',
      [],
      ''nav a::after {'',
      ''  content: '' @ [sq] @ [sq] @ '';'',
      ''  position: absolute;'',
      ''  bottom: -4px;'',
      ''  left: 0;'',
      ''  width: 0;'',
      ''  height: 2px;'',
      ''  background: var(--accent-color);'',
      ''  transition: width 0.3s ease;'',
      ''}'',
      [],
      ''nav a:hover::after {'',
      ''  width: 100%;'',
      ''}'',
      [],
      ''/* Hero Section */'',
      ''.hero {'',
      ''  min-height: 60vh;'',
      ''  display: flex;'',
      ''  flex-direction: column;'',
      ''  align-items: center;'',
      ''  justify-content: center;'',
      ''  text-align: center;'',
      ''  padding: var(--spacing-xl) var(--spacing-md);'',
      ''  background: var(--accent-gradient);'',
      ''  position: relative;'',
      ''  overflow: hidden;'',
      ''}'',
      [],
      ''.hero img {'',
      ''  width: 100%;'',
      ''  max-width: 600px;'',
      ''  max-height: 300px;'',
      ''  height: auto;'',
      ''  object-fit: cover;'',
      ''  border-radius: var(--radius);'',
      ''  margin: 0 auto var(--spacing-md);'',
      ''  box-shadow: var(--shadow-lg);'',
      ''  display: block;'',
      ''}'',
      [],
      ''.hero h2 {'',
      ''  font-size: clamp(2rem, 5vw, 3.5rem);'',
      ''  margin: var(--spacing-sm) 0;'',
      ''  color: var(--text-color);'',
      ''  font-weight: 700;'',
      ''}'',
      [],
      ''.hero p {'',
      ''  font-size: clamp(1.125rem, 2vw, 1.25rem);'',
      ''  color: var(--text-muted);'',
      ''  max-width: 600px;'',
      ''  margin: var(--spacing-sm) auto var(--spacing-md);'',
      ''}'',
      [],
      ''.cta {'',
      ''  display: inline-block;'',
      ''  background: var(--accent-color);'',
      ''  color: white;'',
      ''  padding: var(--spacing-sm) var(--spacing-md);'',
      ''  border-radius: var(--radius);'',
      ''  text-decoration: none;'',
      ''  font-weight: 600;'',
      ''  transition: transform 0.3s ease, box-shadow 0.3s ease;'',
      ''  margin-top: var(--spacing-md);'',
      ''}'',
      [],
      ''.cta:hover {'',
      ''  transform: translateY(-2px);'',
      ''  box-shadow: var(--shadow-lg);'',
      ''}'',
      [],
      ''/* Sections */'',
      ''section {'',
      ''  padding: var(--spacing-xl) var(--spacing-md);'',
      ''  max-width: 1200px;'',
      ''  margin: 0 auto;'',
      ''}'',
      [],
      ''section h2 {'',
      ''  font-size: clamp(2rem, 4vw, 2.5rem);'',
      ''  margin-bottom: var(--spacing-md);'',
      ''  text-align: center;'',
      ''  color: var(--text-color);'',
      ''}'',
      [],
      ''/* About Section */'',
      ''.about {'',
      ''  background: var(--bg-light);'',
      ''}'',
      [],
      ''.about p {'',
      ''  font-size: clamp(1rem, 2vw, 1.125rem);'',
      ''  line-height: 1.8;'',
      ''  color: var(--text-muted);'',
      ''  max-width: 800px;'',
      ''  margin: 0 auto;'',
      ''}'',
      [],
      ''/* Skills Section */'',
      ''.skills {'',
      ''  padding: var(--spacing-xl) var(--spacing-md);'',
      ''}'',
      [],
      ''.skills-list {'',
      ''  list-style: none;'',
      ''  display: flex;'',
      ''  flex-wrap: wrap;'',
      ''  gap: var(--spacing-sm);'',
      ''  justify-content: center;'',
      ''  padding: 0;'',
      ''}'',
      [],
      ''.skills-list li {'',
      ''  background: var(--accent-color);'',
      ''  color: white;'',
      ''  padding: var(--spacing-xs) var(--spacing-sm);'',
      ''  border-radius: 20px;'',
      ''  font-weight: 500;'',
      ''  font-size: 0.9rem;'',
      ''  border: 1px solid var(--accent-tertiary);'',
      ''  box-shadow: 0 6px 18px -6px var(--accent-secondary);'',
      ''  transition: transform 0.3s ease, box-shadow 0.3s ease;'',
      ''}'',
      [],
      ''.skills-list li:hover {'',
      ''  transform: translateY(-2px);'',
      ''  box-shadow: 0 10px 24px -8px var(--accent-tertiary);'',
      ''}'',
      [],
      ''/* Projects Section */'',
      ''#projects {'',
      ''  background: var(--bg-light);'',
      ''}'',
      [],
      ''.projects-grid {'',
      ''  display: grid;'',
      ''  grid-template-columns: repeat(auto-fit, minmax(300px, 1fr));'',
      ''  gap: var(--spacing-md);'',
      ''  margin-top: var(--spacing-md);'',
      ''}'',
      [],
      ''.card {'',
      ''  background: white;'',
      ''  border-radius: var(--radius);'',
      ''  overflow: hidden;'',
      ''  box-shadow: var(--shadow);'',
      ''  transition: transform 0.3s ease, box-shadow 0.3s ease;'',
      ''}'',
      [],
      ''.card:hover {'',
      ''  transform: translateY(-8px);'',
      ''  box-shadow: var(--shadow-lg);'',
      ''}'',
      [],
      ''.card img {'',
      ''  width: 100%;'',
      ''  height: 200px;'',
      ''  max-height: 200px;'',
      ''  object-fit: cover;'',
      ''  display: block;'',
      ''}'',
      [],
      ''.card-body {'',
      ''  padding: var(--spacing-md);'',
      ''}'',
      [],
      ''.card h3 {'',
      ''  font-size: 1.25rem;'',
      ''  margin-bottom: var(--spacing-xs);'',
      ''  color: var(--text-color);'',
      ''}'',
      [],
      ''.card p {'',
      ''  color: var(--text-muted);'',
      ''  line-height: 1.6;'',
      ''}'',
      [],
      ''/* Contact Section */'',
      ''.contact {'',
      ''  text-align: center;'',
      ''}'',
      [],
      ''.contact a {'',
      ''  color: var(--accent-color);'',
      ''  text-decoration: none;'',
      ''  font-weight: 500;'',
      ''}'',
      [],
      ''.contact a:hover {'',
      ''  text-decoration: underline;'',
      ''}'',
      [],
      ''/* Footer */'',
      ''footer {'',
      ''  background: var(--text-color);'',
      ''  color: white;'',
      ''  text-align: center;'',
      ''  padding: var(--spacing-md);'',
      ''  margin-top: var(--spacing-xl);'',
      ''}'',
      [],
      ''footer p {'',
      ''  margin: 0;'',
      ''  font-size: 0.9rem;'',
      ''}'',
      [],
      ''/* Responsive Design */'',
      ''@media (max-width: 768px) {'',
      ''  header {'',
      ''    flex-direction: column;'',
      ''    align-items: flex-start;'',
      ''    gap: var(--spacing-sm);'',
      ''  }'',
      [],
      ''  nav {'',
      ''    flex-wrap: wrap;'',
      ''  }'',
      [],
      ''  .hero {'',
      ''    min-height: 50vh;'',
      ''    padding: var(--spacing-lg) var(--spacing-sm);'',
      ''  }'',
      [],
      ''  .hero img {'',
      ''    max-height: 300px;'',
      ''  }'',
      [],
      ''  .projects-grid {'',
      ''    grid-template-columns: 1fr;'',
      ''  }'',
      [],
      ''  section {'',
      ''    padding: var(--spacing-lg) var(--spacing-sm);'',
      ''  }'',
      ''}'',
      [],
      ''@media (max-width: 480px) {'',
      ''  .hero h2 {'',
      ''    font-size: 1.75rem;'',
      ''  }'',
      [],
      ''  .skills-list li {'',
      ''    font-size: 0.85rem;'',
      ''    padding: 0.4rem 0.8rem;'',
      ''  }'',
      ''}'',
      []]"

definition enhancedCss :: "brief \<Rightarrow> string" where
  "enhancedCss userData =
     join [nl] (enhancedCss_lines (accent_of userData) (accentSecondary_of userData)
                  (accentTertiary_of userData))"

text \<open>The generated script, line by line.\<close>

definition enhancedJs_lines :: "string list" where
  "enhancedJs_lines =
     [''// Portfolio JavaScript'',
      ''document.addEventListener('' @ [sq] @ ''DOMContentLoaded'' @ [sq] @ '', function() {'',
      ''  // Smooth scrolling for anchor links'',
      ''  document.querySelectorAll('' @ [sq] @ ''a[href^='' @ [dq] @ ''#'' @ [dq] @ '']'' @ [sq] @ '').forEach(anchor => {'',
      ''    anchor.addEventListener('' @ [sq] @ ''click'' @ [sq] @ '', function (e) {'',
      ''      e.preventDefault();'',
      ''      const target = document.querySelector(this.getAttribute('' @ [sq] @ ''href'' @ [sq] @ ''));'',
      ''      if (target) {'',
      ''        target.scrollIntoView({'',
      ''          behavior: '' @ [sq] @ ''smooth'' @ [sq] @ '','',
      ''          block: '' @ [sq] @ ''start'' @ [sq],
      ''        });'',
      ''      }'',
      ''    });'',
      ''  });'',
      [],
      ''  // Update year in footer'',
      ''  const yearElement = document.querySelector('' @ [sq] @ ''footer p'' @ [sq] @ '');'',
      ''  if (yearElement) {'',
      ''    yearElement.innerHTML = yearElement.innerHTML.replace(/'' @ [CHR 0x5C] @ ''d{4}/, new Date().getFullYear());'',
      ''  }'',
      [],
      ''  // Mobile menu toggle (if needed)'',
      ''  const navToggle = document.querySelector('' @ [sq] @ ''.nav-toggle'' @ [sq] @ '');'',
      ''  const navMenu = document.querySelector('' @ [sq] @ ''nav'' @ [sq] @ '');'',
      ''  '',
      ''  if (navToggle && navMenu) {'',
      ''    navToggle.addEventListener('' @ [sq] @ ''click'' @ [sq] @ '', () => {'',
      ''      navMenu.classList.toggle('' @ [sq] @ ''active'' @ [sq] @ '');'',
      ''    });'',
      ''  }'',
      ''});'',
      []]"

definition enhancedJs :: string where
  "enhancedJs = join [nl] enhancedJs_lines"

section \<open>Validator and repair engine\<close>

text \<open>
  \<^verbatim>\<open>files.find(f => f.path === p)\<close>: the index of the first entry with that path.
  Reading the path of an entry that is \<^verbatim>\<open>null\<close> raises a type error.
\<close>

fun find_path :: "string \<Rightarrow> jsval list \<Rightarrow> js_error + nat option" where
  "find_path p [] = Inr None"
| "find_path p (f # fs) =
     (if f = JNull then Inl (type_error (''Cannot read properties of null (reading '' @ [sq] @ ''path'' @ [sq] @ '')''))
      else if get_prop f ''path'' = Some (JStr p) then Inr (Some 0)
      else (case find_path p fs of
              Inl err \<Rightarrow> Inl err
            | Inr None \<Rightarrow> Inr None
            | Inr (Some i) \<Rightarrow> Inr (Some (Suc i))))"

text \<open>
  The content of an entry as the three blocks read it: absent or falsy, a string that is
  not empty, or a truthy value that is not a string (on which the string method that
  the block calls does not exist).
\<close>

datatype content_view = NoContent | Content string | NotAString

definition view_content :: "jsval \<Rightarrow> content_view" where
  "view_content f =
     (case get_prop f ''content'' of
        None \<Rightarrow> NoContent
      | Some (JStr s) \<Rightarrow> if s = [] then NoContent else Content s
      | Some v \<Rightarrow> if truthy v then NotAString else NoContent)"

definition repair_html :: "nat \<Rightarrow> brief \<Rightarrow> jsval list \<Rightarrow> js_error + jsval list" where
  "repair_html year userData files =
     (case find_path ''index.html'' files of
        Inl err \<Rightarrow> Inl err
      | Inr None \<Rightarrow> Inr files
      | Inr (Some i) \<Rightarrow>
          (case view_content (files ! i) of
             NoContent \<Rightarrow> Inr files
           | NotAString \<Rightarrow> Inl (type_error ''htmlContent.replace is not a function'')
           | Content content \<Rightarrow>
               (case fix_html year userData content of
                  Inl err \<Rightarrow> Inl err
                | Inr (htmlContent, fixed) \<Rightarrow>
                    Inr (if fixed then files[i := set_content (files ! i) htmlContent]
                         else files))))"

definition repair_css :: "brief \<Rightarrow> jsval list \<Rightarrow> js_error + jsval list" where
  "repair_css userData files =
     (case find_path ''styles.css'' files of
        Inl err \<Rightarrow> Inl err
      | Inr None \<Rightarrow> Inr files
      | Inr (Some i) \<Rightarrow>
          (case view_content (files ! i) of
             NoContent \<Rightarrow> Inr files
           | NotAString \<Rightarrow> Inl (type_error ''cssFile.content.split is not a function'')
           | Content content \<Rightarrow>
               (let cssLines = line_count content
                in Inr (if cssLines < 100
                        then files[i := set_content (files ! i) (enhancedCss userData)]
                        else files))))"

definition repair_js :: "jsval list \<Rightarrow> js_error + jsval list" where
  "repair_js files =
     (case find_path ''script.js'' files of
        Inl err \<Rightarrow> Inl err
      | Inr None \<Rightarrow> Inr files
      | Inr (Some i) \<Rightarrow>
          (case view_content (files ! i) of
             NoContent \<Rightarrow> Inr (files[i := set_content (files ! i) enhancedJs])
           | NotAString \<Rightarrow> Inl (type_error ''jsFile.content.trim is not a function'')
           | Content content \<Rightarrow>
               Inr (if length (trim content) < 50
                    then files[i := set_content (files ! i) enhancedJs]
                    else files)))"

definition validateAndEnhanceManifest :: "nat \<Rightarrow> manifest \<Rightarrow> brief \<Rightarrow> js_error + manifest" where
  "validateAndEnhanceManifest year manifest userData =
     (case m_files manifest of
        Some (JArr files) \<Rightarrow>
          (case repair_html year userData files of
             Inl err \<Rightarrow> Inl err
           | Inr files1 \<Rightarrow>
               (case repair_css userData files1 of
                  Inl err \<Rightarrow> Inl err
                | Inr files2 \<Rightarrow>
                    (case repair_js files2 of
                       Inl err \<Rightarrow> Inl err
                     | Inr files3 \<Rightarrow>
                         Inr (manifest\<lparr>m_files := Some (JArr files3),
                                       m_accentPalette := Some (PaletteArray (paletteForAI userData))\<rparr>))))
      | _ \<Rightarrow> Inl (new_Error (''Manifest must have a '' @ [sq] @ ''files'' @ [sq] @ '' array'')))"

section \<open>Spec phase: normalisation of the asset needs\<close>

text \<open>
  The part of the route \<^verbatim>\<open>/api/generate-spec\<close> that follows the repair. It reads the
  identifier \<^verbatim>\<open>paletteForAI\<close>, which the definitions below take as the parameter
  \<open>palette\<close>.
\<close>

definition paletteDescriptionForHero :: "string list \<Rightarrow> string" where
  "paletteDescriptionForHero palette =
     (if palette \<noteq> [] then ''with color palette '' @ join '', '' palette @ '', '' else [])"

definition paletteDescriptionForProjects :: "string list \<Rightarrow> string" where
  "paletteDescriptionForProjects palette =
     (if palette \<noteq> [] then '', color palette '' @ join '', '' palette else [])"

definition heroImagePrompt :: "string list \<Rightarrow> string" where
  "heroImagePrompt palette =
     ''abstract geometric background pattern, modern professional web design, minimalist style, ''
     @ paletteDescriptionForHero palette
     @ ''subtle gradients and clean geometric shapes like triangles, circles, polygons, and hexagons, pattern texture, web design aesthetic, portfolio background, professional illustration, NO people, NO characters, NO superhero themes, NO costumes, NO persons, NO human figures, NO masked characters, NO caped figures, abstract only, geometric pattern only''"

definition projectImagePrompt :: "string list \<Rightarrow> project \<Rightarrow> string" where
  "projectImagePrompt palette proj =
     (if proj_title proj \<noteq> [] \<and> proj_desc proj \<noteq> []
      then ''professional screenshot or mockup of '' @ proj_title proj @ '' project: ''
           @ proj_desc proj @ '', modern UI design, clean interface''
           @ paletteDescriptionForProjects palette
           @ '', product mock photo, neutral background, no people, realistic web application''
      else ''professional web application mockup, modern UI design, clean interface''
           @ paletteDescriptionForProjects palette
           @ '', product mock photo, neutral background, no people'')"

definition genericMockupPrompt :: string where
  "genericMockupPrompt =
     ''professional web application mockup, modern UI design, clean interface, product mock photo, neutral background, no people''"

text \<open>\<^verbatim>\<open>while (xs.length < 3) xs.push(...)\<close>\<close>

function pad_prompts :: "string list \<Rightarrow> string list" where
  "pad_prompts xs = (if length xs < 3 then pad_prompts (xs @ [genericMockupPrompt]) else xs)"
  by pat_completeness auto
termination
  by (relation "measure (\<lambda>xs. 3 - length xs)") auto

declare pad_prompts.simps [simp del]

text \<open>The \<^verbatim>\<open>else\<close> branch: the prompts the generator gave, by position.\<close>

definition enhance_prompt :: "project list \<Rightarrow> nat \<Rightarrow> string \<Rightarrow> string" where
  "enhance_prompt projects idx prompt =
     (if idx < length projects \<and> proj_title (projects ! idx) \<noteq> []
         \<and> proj_desc (projects ! idx) \<noteq> []
      then ''professional screenshot or mockup of '' @ proj_title (projects ! idx)
           @ '' project: '' @ proj_desc (projects ! idx)
           @ '', modern UI design, clean interface, product mock photo, neutral background, no people, realistic web application''
      else prompt)"

text \<open>
  The block on \<^verbatim>\<open>manifest.assetsNeeded.projectImages\<close>. A truthy value that is not an
  array goes to the \<^verbatim>\<open>else\<close> branch, where it has no \<^verbatim>\<open>map\<close>.
\<close>

definition normalize_project_images ::
  "string list \<Rightarrow> brief \<Rightarrow> prompts_input \<Rightarrow> js_error + string list" where
  "normalize_project_images palette userData given_prompts =
     (let projects = take 3 (b_projects userData)
      in case given_prompts of
           NoPrompts \<Rightarrow> Inr (pad_prompts (map (projectImagePrompt palette) projects))
         | Prompts given \<Rightarrow>
             if given = [] then Inr (pad_prompts (map (projectImagePrompt palette) projects))
             else Inr (map (\<lambda>(idx, prompt). enhance_prompt projects idx prompt)
                         (zip [0 ..< length given] given))
         | NotPrompts \<Rightarrow>
             Inl (type_error ''manifest.assetsNeeded.projectImages.map is not a function''))"

definition normalize_assets :: "string list \<Rightarrow> brief \<Rightarrow> manifest \<Rightarrow> js_error + manifest" where
  "normalize_assets palette userData manifest =
     (let assets = (case m_assetsNeeded manifest of
                      Some a \<Rightarrow> a
                    | None \<Rightarrow> \<lparr>heroImage = [], projectImages = NoPrompts\<rparr>)
      in case normalize_project_images palette userData (projectImages assets) of
           Inl err \<Rightarrow> Inl err
         | Inr prompts \<Rightarrow>
             Inr (manifest\<lparr>m_assetsNeeded :=
                    Some \<lparr>heroImage = heroImagePrompt palette,
                          projectImages = Prompts prompts\<rparr>\<rparr>))"

section \<open>Spec phase: the route after extraction\<close>

definition reference_error :: "string \<Rightarrow> js_error" where
  "reference_error name = (new_Error (name @ '' is not defined''))\<lparr>err_name := ''ReferenceError''\<rparr>"

text \<open>
  The route \<^verbatim>\<open>/api/generate-spec\<close> from the point where the manifest has been extracted:
  the response, and the manifest that is stored, if one is.

  \<^verbatim>\<open>paletteForAI\<close> is a constant of \<^verbatim>\<open>validateAndEnhanceManifest\<close>; in the route handler
  the identifier is bound neither by the handler nor by the module, so it denotes the
  property of that name of the global object. \<open>global_paletteForAI\<close> is that property,
  \<open>None\<close> when the global object has none; reading the identifier then raises a
  reference error, which the handler catches and answers with status 500.
\<close>

definition generate_spec_after_extract ::
  "string list option \<Rightarrow> nat \<Rightarrow> manifest \<Rightarrow> brief \<Rightarrow> response \<times> manifest option" where
  "generate_spec_after_extract global_paletteForAI year manifest userData =
     (case validateAndEnhanceManifest year (manifest\<lparr>m_userData := Some userData\<rparr>) userData of
        Inl err \<Rightarrow> (Error_response 500 err, None)
      | Inr manifest' \<Rightarrow>
          (case global_paletteForAI of
             None \<Rightarrow> (Error_response 500 (reference_error ''paletteForAI''), None)
           | Some palette \<Rightarrow>
               (case normalize_assets palette userData manifest' of
                  Inl err \<Rightarrow> (Error_response 500 err, None)
                | Inr stored \<Rightarrow> (Ok_response, Some stored))))"

text \<open>Nothing in the program defines a global of that name.\<close>

definition paletteForAI_global :: "string list option" where
  "paletteForAI_global = None"

section \<open>Notions for the properties of the repair and of the spec phase\<close>

text \<open>
  File entries on which the repair cannot raise a type error: no entry is \<^verbatim>\<open>null\<close>, and
  no entry has a truthy content that is not a string.
\<close>

definition entries_well_typed :: "jsval list \<Rightarrow> bool" where
  "entries_well_typed files = list_all (\<lambda>f. f \<noteq> JNull \<and> view_content f \<noteq> NotAString) files"

text \<open>The \<^verbatim>\<open>about\<close> of the brief is a string, or absent or falsy.\<close>

definition about_is_string :: "brief \<Rightarrow> bool" where
  "about_is_string userData =
     (case b_about userData of AboutString s \<Rightarrow> True | AboutOther t \<Rightarrow> False)"

text \<open>The \<^verbatim>\<open>path\<close> of every entry, in order.\<close>

definition paths_of :: "jsval list \<Rightarrow> jsval option list" where
  "paths_of files = map (\<lambda>f. get_prop f ''path'') files"

text \<open>
  A step of the repair went well: it returned entries that are well typed again, as many
  as before and with the same paths.
\<close>

definition step_ok :: "jsval list \<Rightarrow> js_error + jsval list \<Rightarrow> bool" where
  "step_ok files r =
     (case r of
        Inl e \<Rightarrow> False
      | Inr files' \<Rightarrow> entries_well_typed files' \<and> length files' = length files
                     \<and> paths_of files' = paths_of files)"

text \<open>The error of the guard at the head of \<^verbatim>\<open>validateAndEnhanceManifest\<close>.\<close>

definition files_error :: js_error where
  "files_error = new_Error (''Manifest must have a '' @ [sq] @ ''files'' @ [sq] @ '' array'')"

text \<open>
  Example inputs: a manifest without \<^verbatim>\<open>files\<close>, a brief, an extracted manifest, the
  same with one project image prompt, and a brief whose \<^verbatim>\<open>about\<close> is the number 12345
  with a manifest whose page has a main region and no about region.
\<close>

definition minimal_manifest :: manifest where
  "minimal_manifest =
     \<lparr>m_files = None, m_assetsNeeded = None, m_userData = None, m_accentPalette = None\<rparr>"

definition ada_brief :: brief where
  "ada_brief =
     \<lparr>b_name = ''Ada'', b_title = ''Engineer'', b_tagline = ''Building things'',
      b_about = AboutString [],
      b_email = [], b_accent = AccentString [], b_skills = SkillsArray [''Go''],
      b_projects = [\<lparr>proj_title = ''X'', proj_desc = ''Y''\<rparr>]\<rparr>"

definition extracted_files :: "jsval list" where
  "extracted_files =
     [JObj [(''path'', JStr ''index.html''), (''content'', JStr ''<body><main></main></body>'')]]"

definition extracted_manifest :: manifest where
  "extracted_manifest =
     \<lparr>m_files = Some (JArr extracted_files),
      m_assetsNeeded = Some \<lparr>heroImage = ''a superhero in a cape'', projectImages = NoPrompts\<rparr>,
      m_userData = None, m_accentPalette = None\<rparr>"

definition prompted_manifest :: manifest where
  "prompted_manifest =
     extracted_manifest
       \<lparr>m_assetsNeeded := Some \<lparr>heroImage = ''a superhero in a cape'',
                                 projectImages = Prompts [''a laptop on a desk'']\<rparr>\<rparr>"

definition number_brief :: brief where
  "number_brief = empty_brief\<lparr>b_about := AboutOther ''12345''\<rparr>"

definition main_manifest :: manifest where
  "main_manifest =
     \<lparr>m_files = Some (JArr [JObj [(''path'', JStr ''index.html''),
                                   (''content'', JStr ''<main></main>'')]]),
      m_assetsNeeded = None, m_userData = None, m_accentPalette = None\<rparr>"
section \<open>Manifest extractor\<close>

definition backtick :: char where "backtick = CHR 0x60"

definition fence :: string where "fence = [backtick, backtick, backtick]"

text \<open>
  \<^verbatim>\<open>s.match(/```(?:json)?\s*([\s\S]*?)```/i)\<close>: the first fence that has a fence after
  it; the group is the text between them, after an optional \<^verbatim>\<open>json\<close> and white space.
\<close>

definition skip_json_tag :: "string \<Rightarrow> string" where
  "skip_json_tag t = (if map ascii_lower (take 4 t) = ''json'' then drop 4 t else t)"

definition fenced_block :: "string \<Rightarrow> string option" where
  "fenced_block s =
     (case find_first fence s of
        None \<Rightarrow> None
      | Some (pre, t) \<Rightarrow>
          (case find_first fence (dropWhile is_space (skip_json_tag t)) of
             None \<Rightarrow> None
           | Some (inner, rest) \<Rightarrow> Some inner))"

text \<open>\<^verbatim>\<open>s.indexOf(c)\<close> and \<^verbatim>\<open>s.lastIndexOf(c)\<close> for one character; \<open>None\<close> is \<open>-1\<close>.\<close>

fun indexOf :: "char \<Rightarrow> string \<Rightarrow> nat option" where
  "indexOf c [] = None"
| "indexOf c (x # xs) = (if x = c then Some 0 else map_option Suc (indexOf c xs))"

definition lastIndexOf :: "char \<Rightarrow> string \<Rightarrow> nat option" where
  "lastIndexOf c s =
     (case indexOf c (rev s) of None \<Rightarrow> None | Some i \<Rightarrow> Some (length s - 1 - i))"

text \<open>\<^verbatim>\<open>s.slice(first, last + 1)\<close>\<close>

definition slice :: "string \<Rightarrow> nat \<Rightarrow> nat \<Rightarrow> string" where
  "slice s start stop = take (stop - start) (drop start s)"

text \<open>
  \<open>parse\<close> stands for \<^verbatim>\<open>JSON.parse\<close>, with \<open>None\<close> for the syntax error it throws.
\<close>

definition robustJsonExtract :: "(string \<Rightarrow> 'j option) \<Rightarrow> string \<Rightarrow> js_error + 'j" where
  "robustJsonExtract parse s0 =
     (if s0 = [] then Inl (new_Error ''Empty model output'')
      else (let s = (case fenced_block s0 of Some inner \<Rightarrow> trim inner | None \<Rightarrow> s0)
            in case parse s of
                 Some v \<Rightarrow> Inr v
               | None \<Rightarrow>
                   (case (indexOf CHR ''{'' s, lastIndexOf CHR ''}'' s) of
                      (Some first_idx, Some last_idx) \<Rightarrow>
                        (case parse (slice s first_idx (last_idx + 1)) of
                           Some v \<Rightarrow> Inr v
                         | None \<Rightarrow> Inl (new_Error ''Invalid JSON from model''))
                    | _ \<Rightarrow> Inl (new_Error ''Invalid JSON from model''))))"

section \<open>A reader and a writer of JSON text\<close>

text \<open>
  \<^verbatim>\<open>JSON.parse\<close> and \<^verbatim>\<open>JSON.stringify\<close> for the values of type \<^typ>\<open>jsval\<close>, to run the
  extractor on concrete texts. Numbers are integer literals; a number with a fraction or
  an exponent and a \<^verbatim>\<open>\u\<close> escape above \<^verbatim>\<open>00FF\<close> are outside what this reader covers.
  The reader keeps the members of an object in the order of the text and reads an
  integer exactly, where the engine lists the keys that look like array indices first and
  rounds a number to a double; it agrees with the engine on texts whose keys are not
  numerals and whose integers are below \<open>2\<^sup>5\<^sup>3\<close>, and only such texts are used below.
\<close>

definition json_ws :: "char \<Rightarrow> bool" where
  "json_ws c = (of_char c \<in> {9, 10, 13, 32 :: nat})"

definition hex_value :: "char \<Rightarrow> nat option" where
  "hex_value c =
     (let n = (of_char c :: nat)
      in if 48 \<le> n \<and> n \<le> 57 then Some (n - 48)
         else if 65 \<le> n \<and> n \<le> 70 then Some (n - 55)
         else if 97 \<le> n \<and> n \<le> 102 then Some (n - 87)
         else None)"

text \<open>The character an escape stands for, the backslash already read.\<close>

definition read_escape :: "string \<Rightarrow> (char \<times> string) option" where
  "read_escape r =
     (case r of
        [] \<Rightarrow> None
      | e # r' \<Rightarrow>
          if e = dq \<or> e = CHR 0x5C \<or> e = CHR ''/'' then Some (e, r')
          else if e = CHR ''b'' then Some (CHR 0x08, r')
          else if e = CHR ''f'' then Some (CHR 0x0C, r')
          else if e = CHR ''n'' then Some (CHR 0x0A, r')
          else if e = CHR ''r'' then Some (CHR 0x0D, r')
          else if e = CHR ''t'' then Some (CHR 0x09, r')
          else if e = CHR ''u'' then
            (case r' of
               a # b # c # d # r'' \<Rightarrow>
                 (case (hex_value a, hex_value b, hex_value c, hex_value d) of
                    (Some 0, Some 0, Some h, Some l) \<Rightarrow> Some (char_of (16 * h + l), r'')
                  | _ \<Rightarrow> None)
             | _ \<Rightarrow> None)
          else None)"

text \<open>A string, the opening quote already read: its characters and the rest of the text.\<close>

function read_string :: "string \<Rightarrow> (string \<times> string) option" where
  "read_string [] = None"
| "read_string (c # r) =
     (if c = dq then Some ([], r)
      else if c = CHR 0x5C then
        (case read_escape r of
           None \<Rightarrow> None
         | Some (x, r') \<Rightarrow>
             if length r' < length r
             then (case read_string r' of None \<Rightarrow> None | Some (s, rest) \<Rightarrow> Some (x # s, rest))
             else None)
      else if (of_char c :: nat) < 32 then None
      else (case read_string r of None \<Rightarrow> None | Some (s, rest) \<Rightarrow> Some (c # s, rest)))"
  by pat_completeness auto
termination
  by (relation "measure length") auto

text \<open>A run of digits as a number.\<close>

definition digits_value :: "string \<Rightarrow> nat" where
  "digits_value ds = foldl (\<lambda>acc d. 10 * acc + ((of_char d :: nat) - 48)) 0 ds"

definition read_number :: "string \<Rightarrow> (jsval \<times> string) option" where
  "read_number s =
     (let negative = (s \<noteq> [] \<and> hd s = CHR ''-'');
          r = (if negative then tl s else s);
          ds = takeWhile is_digit r;
          rest = dropWhile is_digit r
      in if ds = [] \<or> (length ds > 1 \<and> hd ds = CHR ''0'') then None
         else if rest \<noteq> [] \<and> hd rest \<in> {CHR ''.'', CHR ''e'', CHR ''E''} then None
         else Some (JNum (if negative then - int (digits_value ds) else int (digits_value ds)),
                    rest))"

text \<open>
  Values, the members of an object and the elements of an array. The first argument
  bounds the number of calls; \<open>json_parse\<close> gives it more than a text can use.
\<close>

fun read_value :: "nat \<Rightarrow> string \<Rightarrow> (jsval \<times> string) option"
  and read_members :: "nat \<Rightarrow> (string \<times> jsval) list \<Rightarrow> string \<Rightarrow> (jsval \<times> string) option"
  and read_elements :: "nat \<Rightarrow> jsval list \<Rightarrow> string \<Rightarrow> (jsval \<times> string) option" where
  "read_value 0 s = None"
| "read_value (Suc n) s =
     (case dropWhile json_ws s of
        [] \<Rightarrow> None
      | c # r \<Rightarrow>
          if c = CHR ''{'' then
            (case dropWhile json_ws r of
               [] \<Rightarrow> None
             | c' # r' \<Rightarrow> if c' = CHR ''}'' then Some (JObj [], r')
                          else read_members n [] (c' # r'))
          else if c = CHR ''['' then
            (case dropWhile json_ws r of
               [] \<Rightarrow> None
             | c' # r' \<Rightarrow> if c' = CHR '']'' then Some (JArr [], r')
                          else read_elements n [] (c' # r'))
          else if c = dq then
            (case read_string r of None \<Rightarrow> None | Some (str, rest) \<Rightarrow> Some (JStr str, rest))
          else if prefix ''true'' (c # r) then Some (JBool True, drop 4 (c # r))
          else if prefix ''false'' (c # r) then Some (JBool False, drop 5 (c # r))
          else if prefix ''null'' (c # r) then Some (JNull, drop 4 (c # r))
          else read_number (c # r))"
| "read_members 0 acc s = None"
| "read_members (Suc n) acc s =
     (case dropWhile json_ws s of
        [] \<Rightarrow> None
      | c # r \<Rightarrow>
          if c \<noteq> dq then None
          else (case read_string r of
                  None \<Rightarrow> None
                | Some (key, r1) \<Rightarrow>
                    (case dropWhile json_ws r1 of
                       [] \<Rightarrow> None
                     | c1 # r2 \<Rightarrow>
                         if c1 \<noteq> CHR '':'' then None
                         else (case read_value n r2 of
                                 None \<Rightarrow> None
                               | Some (v, r3) \<Rightarrow>
                                   (case dropWhile json_ws r3 of
                                      [] \<Rightarrow> None
                                    | c2 # r4 \<Rightarrow>
                                        if c2 = CHR ''}''
                                        then Some (JObj (AList.update key v acc), r4)
                                        else if c2 = CHR '',''
                                        then read_members n (AList.update key v acc) r4
                                        else None)))))"
| "read_elements 0 acc s = None"
| "read_elements (Suc n) acc s =
     (case read_value n s of
        None \<Rightarrow> None
      | Some (v, r) \<Rightarrow>
          (case dropWhile json_ws r of
             [] \<Rightarrow> None
           | c # r' \<Rightarrow>
               if c = CHR '']'' then Some (JArr (acc @ [v]), r')
               else if c = CHR '','' then read_elements n (acc @ [v]) r'
               else None))"

definition json_parse :: "string \<Rightarrow> jsval option" where
  "json_parse s =
     (case read_value (2 * length s + 2) s of
        None \<Rightarrow> None
      | Some (v, rest) \<Rightarrow> if dropWhile json_ws rest = [] then Some v else None)"

definition hex_digit :: "nat \<Rightarrow> char" where
  "hex_digit n = (if n < 10 then char_of (48 + n) else char_of (87 + n))"

definition write_char :: "char \<Rightarrow> string" where
  "write_char c =
     (let n = (of_char c :: nat)
      in if c = dq then [CHR 0x5C, dq]
         else if c = CHR 0x5C then [CHR 0x5C, CHR 0x5C]
         else if n = 8 then [CHR 0x5C, CHR ''b'']
         else if n = 12 then [CHR 0x5C, CHR ''f'']
         else if n = 10 then [CHR 0x5C, CHR ''n'']
         else if n = 13 then [CHR 0x5C, CHR ''r'']
         else if n = 9 then [CHR 0x5C, CHR ''t'']
         else if n < 32 then [CHR 0x5C, CHR ''u'', CHR ''0'', CHR ''0'', hex_digit (n div 16),
                              hex_digit (n mod 16)]
         else [c])"

definition write_string :: "string \<Rightarrow> string" where
  "write_string s = [dq] @ concat (map write_char s) @ [dq]"

fun json_stringify :: "jsval \<Rightarrow> string" where
  "json_stringify JNull = ''null''"
| "json_stringify (JBool b) = (if b then ''true'' else ''false'')"
| "json_stringify (JNum n) = (if n < 0 then ''-'' @ decimal (nat (- n)) else decimal (nat n))"
| "json_stringify (JStr s) = write_string s"
| "json_stringify (JArr xs) = ''['' @ join '','' (map json_stringify xs) @ '']''"
| "json_stringify (JObj kvs) =
     ''{'' @ join '','' (map (\<lambda>(k, v). write_string k @ '':'' @ json_stringify v) kvs) @ ''}''"

section \<open>Notions for the repeated repair\<close>








definition css_manifest :: "string \<Rightarrow> manifest" where
  "css_manifest content =
     \<lparr>m_files = Some (JArr [JObj [(''path'', JStr ''styles.css''), (''content'', JStr content)]]),
      m_assetsNeeded = None, m_userData = None, m_accentPalette = None\<rparr>"






section \<open>Notions for the round trip of the extractor\<close>

text \<open>A text that opens with a brace and closes with one, as the text of an object does.\<close>

definition object_text :: "string \<Rightarrow> bool" where
  "object_text t = (t \<noteq> [] \<and> hd t = CHR ''{'' \<and> last t = CHR ''}'')"

text \<open>The language tag that the extractor skips after an opening fence.\<close>

definition is_json_tag :: "string \<Rightarrow> bool" where
  "is_json_tag tag = (tag = [] \<or> map ascii_lower tag = ''json'')"

text \<open>
  Example manifests: one whose file content holds a fenced block of its own, and a small
  one; the inner block of the first, and the second amid prose that has braces.
\<close>

definition readme_manifest :: jsval where
  "readme_manifest =
     JObj [(''files'', JArr [JObj [(''path'', JStr ''README.md''),
                                   (''content'', JStr (fence @ ''sh'' @ [nl] @ ''npm i'' @ [nl] @ fence))]])]"

definition small_manifest :: jsval where
  "small_manifest =
     JObj [(''site_name'', JStr ''Ada''),
           (''files'', JArr [JObj [(''path'', JStr ''index.html''), (''content'', JStr ''<p>Hi</p>'')]])]"

definition readme_block :: string where
  "readme_block = ''sh'' @ [CHR 0x5C] @ ''nnpm i'' @ [CHR 0x5C] @ ''n''"

definition prose_text :: string where
  "prose_text = ''Here is {your} site: '' @ json_stringify small_manifest @ '' Enjoy!''"

section \<open>Properties of the rotation\<close>

lemma rotate_keys_fatal:
  assumes "list_all (retryable_failure call) pre"
    and "call k = Inl err" and "\<not> isRetryableError err"
  shows "rotate_keys label call (pre @ k # post) lastError
         = (Inl (new_Error (label @ '': '' @ error_msg err)), pre @ [k])"
  using assms
proof (induction pre arbitrary: lastError)
  case Nil
  then show ?case by simp
next
  case (Cons a pre)
  then obtain e where e: "call a = Inl e" "isRetryableError e"
    by (auto simp: retryable_failure_def split: sum.splits)
  from Cons have IH: "\<And>lastError. rotate_keys label call (pre @ k # post) lastError
         = (Inl (new_Error (label @ '': '' @ error_msg err)), pre @ [k])" by simp
  show ?case using e by (simp add: IH)
qed

lemma empty_response_not_retryable:
  "\<not> isRetryableError (new_Error ''Empty response from Gemini'')"
  by code_simp

lemma no_image_data_not_retryable:
  "\<not> isRetryableError (new_Error ''No image data returned from Gemini'')"
  by code_simp

lemma quota_error_retryable: "isRetryableError quota_error"
  by code_simp

lemma invalid_key_error_fatal: "\<not> isRetryableError invalid_key_error"
  by code_simp

lemma error_msg_new_Error: "msg \<noteq> [] \<Longrightarrow> error_msg (new_Error msg) = msg"
  by (simp add: error_msg_def new_Error_def)

lemma generateTextWithKey_empty:
  assumes "empty_text_payload prov k p"
  shows "generateTextWithKey prov k p = Inl (new_Error ''Empty response from Gemini'')"
  using assms
  by (auto simp: empty_text_payload_def generateTextWithKey_def legacy_text_attempt_def
      split: sum.splits)

lemma image_models_loop_empty:
  "list_all (\<lambda>m. no_image_data (gen m)) ms \<Longrightarrow> image_models_loop gen ms outFile fs = Inr None"
  by (induction ms) (auto simp: no_image_data_def)

lemma image_models_loop_error:
  "image_models_loop gen ms outFile fs = Inl err \<Longrightarrow> \<not> isRetryableError err"
  by (induction ms) (auto split: sum.splits option.splits if_splits)

text \<open>
  The image adapter swallows every retryable error of a model and goes on to the next
  model; what it throws in the end is never retryable.
\<close>

lemma generateImageWithKey_error_fatal:
  assumes "generateImageWithKey prov ms fs k p outFile = Inl err"
  shows "\<not> isRetryableError err"
  using assms image_models_loop_error no_image_data_not_retryable
  by (auto simp: generateImageWithKey_def split: sum.splits option.splits)

lemma generateImageWithKey_empty:
  assumes "empty_image_payload prov ms k p"
  shows "generateImageWithKey prov ms fs k p outFile
         = Inl (new_Error ''No image data returned from Gemini'')"
  using assms
  by (simp add: empty_image_payload_def generateImageWithKey_def image_models_loop_empty)

lemma example_text_k1: "generateTextWithKey example_text_provider ''k1'' p = Inl quota_error"
  by (simp add: generateTextWithKey_def example_text_provider_def quota_error_retryable
      legacy_text_attempt_def)

lemma example_text_k2:
  "generateTextWithKey example_text_provider ''k2'' p = Inl invalid_key_error"
  by (simp add: generateTextWithKey_def example_text_provider_def invalid_key_error_fatal)

lemma example_text_k3: "generateTextWithKey example_text_provider ''k3'' p = Inr ''{}''"
  by (simp add: generateTextWithKey_def example_text_provider_def)

lemma example_image_k2:
  "generateImageWithKey example_image_provider [''gemini-2.5-flash-image''] fs ''k2'' p outFile
   = Inl invalid_key_error"
  by (simp add: generateImageWithKey_def example_image_provider_def invalid_key_error_fatal)

lemma example_text_k0: "empty_text_payload example_text_provider ''k0'' p"
  by (simp add: empty_text_payload_def example_text_provider_def join_parts_def)

lemma example_image_k0:
  "empty_image_payload example_image_provider [''gemini-2.5-flash-image''] ''k0'' p"
  by (simp add: empty_image_payload_def example_image_provider_def no_image_data_def
      legacyModels_def)

lemma example_text_pre:
  "list_all (retryable_failure (\<lambda>apiKey. generateTextWithKey example_text_provider apiKey p))
     [''k1'']"
  by (simp add: retryable_failure_def example_text_k1 quota_error_retryable)

text \<open>
  Claim C9. When a candidate fails with an error that is not retryable, the rotation
  stops there: the wrapped error is the result and no later key is handed to the
  adapter. For text the failing key may come after keys that failed with retryable
  errors. For images the adapter never fails with a retryable error, so the failing key
  is the first one.
\<close>

theorem fatal_error_aborts_rotation:
  "\<not> isRetryableError err \<longrightarrow>
   (list_all (retryable_failure (\<lambda>apiKey. generateTextWithKey tp apiKey prompt)) pre
      \<and> generateTextWithKey tp k prompt = Inl err
    \<longrightarrow> generateText tp (pre @ k # post) prompt
        = (Inl (new_Error (''Text generation failed: '' @ error_msg err)), pre @ [k]))
   \<and> (generateImageWithKey ip ms fs k prompt outFile = Inl err
    \<longrightarrow> generateImageToFile ip ms (k # post) fs prompt outFile
        = (Inl (new_Error (''Image generation failed: '' @ error_msg err)), [k]))"
  using rotate_keys_fatal
    [of "\<lambda>apiKey. generateImageWithKey ip ms fs apiKey prompt outFile" "[]" k err]
    rotate_keys_fatal [of "\<lambda>apiKey. generateTextWithKey tp apiKey prompt" pre k err]
  by (simp add: generateText_def generateImageToFile_def)

theorem fatal_error_aborts_rotation_witness:
  "\<not> isRetryableError invalid_key_error
   \<and> list_all (retryable_failure
        (\<lambda>apiKey. generateTextWithKey example_text_provider apiKey ''make a site'')) [''k1'']
   \<and> generateTextWithKey example_text_provider ''k2'' ''make a site'' = Inl invalid_key_error
   \<and> generateText example_text_provider [''k1'', ''k2'', ''k3''] ''make a site''
       = (Inl (new_Error ''Text generation failed: API key not valid''), [''k1'', ''k2''])
   \<and> generateImageWithKey example_image_provider [''gemini-2.5-flash-image''] Map.empty
        ''k2'' ''make a site'' ''hero.png'' = Inl invalid_key_error
   \<and> generateImageToFile example_image_provider [''gemini-2.5-flash-image'']
        [''k2'', ''k3''] Map.empty ''make a site'' ''hero.png''
       = (Inl (new_Error ''Image generation failed: API key not valid''), [''k2''])"
proof -
  have msg: "error_msg invalid_key_error = ''API key not valid''"
    by (simp add: error_msg_def invalid_key_error_def new_Error_def)
  show ?thesis
    using example_text_pre [of "''make a site''"]
      fatal_error_aborts_rotation [where err = invalid_key_error
        and tp = example_text_provider and pre = "[''k1'']" and k = "''k2''"
        and post = "[''k3'']" and ip = example_image_provider
        and ms = "[''gemini-2.5-flash-image'']" and outFile = "''hero.png''"
        and fs = Map.empty and prompt = "''make a site''"]
    by (simp add: invalid_key_error_fatal example_text_k2 example_image_k2 msg)
qed

text \<open>
  Claim C4, as the code has it. A response without usable payload makes the adapter
  throw \<^verbatim>\<open>Empty response from Gemini\<close> (text) or \<^verbatim>\<open>No image data returned from Gemini\<close>
  (image). Neither error is retryable, so the rotation stops at that key and no later
  key is tried, however many remain.
\<close>

theorem empty_payload_aborts_rotation:
  "(list_all (retryable_failure (\<lambda>apiKey. generateTextWithKey tp apiKey prompt)) pre
      \<and> empty_text_payload tp k prompt
    \<longrightarrow> generateText tp (pre @ k # post) prompt
        = (Inl (new_Error ''Text generation failed: Empty response from Gemini''), pre @ [k]))
   \<and> (empty_image_payload ip ms k prompt
    \<longrightarrow> generateImageToFile ip ms (k # post) fs prompt outFile
        = (Inl (new_Error ''Image generation failed: No image data returned from Gemini''),
           [k]))"
  using rotate_keys_fatal [of "\<lambda>apiKey. generateTextWithKey tp apiKey prompt" pre k
      "new_Error ''Empty response from Gemini''" "''Text generation failed''" post None]
    rotate_keys_fatal [of "\<lambda>apiKey. generateImageWithKey ip ms fs apiKey prompt outFile" "[]" k
      "new_Error ''No image data returned from Gemini''" "''Image generation failed''" post None]
  by (simp add: generateText_def generateImageToFile_def generateTextWithKey_empty
      generateImageWithKey_empty empty_response_not_retryable no_image_data_not_retryable
      error_msg_new_Error)

theorem empty_payload_aborts_rotation_witness:
  "list_all (retryable_failure
        (\<lambda>apiKey. generateTextWithKey example_text_provider apiKey ''make a site'')) [''k1'']
   \<and> empty_text_payload example_text_provider ''k0'' ''make a site''
   \<and> generateText example_text_provider [''k1'', ''k0'', ''k3''] ''make a site''
       = (Inl (new_Error ''Text generation failed: Empty response from Gemini''),
          [''k1'', ''k0''])
   \<and> empty_image_payload example_image_provider [''gemini-2.5-flash-image''] ''k0''
        ''make a site''
   \<and> generateImageToFile example_image_provider [''gemini-2.5-flash-image'']
        [''k0'', ''k3''] Map.empty ''make a site'' ''hero.png''
       = (Inl (new_Error ''Image generation failed: No image data returned from Gemini''),
          [''k0''])"
  using example_text_pre [of "''make a site''"]
    empty_payload_aborts_rotation [where tp = example_text_provider
      and pre = "[''k1'']" and k = "''k0''" and post = "[''k3'']"
      and ip = example_image_provider and ms = "[''gemini-2.5-flash-image'']"
      and outFile = "''hero.png''" and fs = Map.empty and prompt = "''make a site''"]
  by (simp add: example_text_k0 example_image_k0)

text \<open>
  The claim as stated fails: with two keys, the first answered with an empty payload and
  the second one working, the second key is never tried and the rotation fails.
\<close>

theorem empty_payload_next_candidate_counterexample:
  "empty_text_payload example_text_provider ''k0'' ''make a site''
   \<and> generateTextWithKey example_text_provider ''k3'' ''make a site'' = Inr ''{}''
   \<and> generateText example_text_provider [''k0'', ''k3''] ''make a site''
       = (Inl (new_Error ''Text generation failed: Empty response from Gemini''), [''k0''])"
  by (simp add: example_text_k0 example_text_k3 generateText_def
      generateTextWithKey_empty [OF example_text_k0] empty_response_not_retryable
      error_msg_new_Error)

section \<open>Token substitution changes the content only\<close>

lemma set_content_props:
  "key \<noteq> ''content'' \<Longrightarrow> get_prop (set_content f c) key = get_prop f key"
  by (cases f) (simp_all add: update_conv')

lemma set_content_keys:
  "has_string_content f \<Longrightarrow> obj_keys (set_content f c) = obj_keys f"
proof (cases f)
  case (JObj kvs)
  assume "has_string_content f"
  with JObj have "''content'' \<in> fst ` set kvs"
    by (auto simp: has_string_content_def split: option.splits dest: map_of_SomeD intro: rev_image_eqI)
  then have "map fst (AList.update ''content'' (JStr c) kvs) = map fst kvs"
    by (simp add: update_keys)
  with JObj show ?thesis by simp
qed (simp_all add: has_string_content_def)

lemma replace_in_file_frame:
  assumes "replace_in_file rx reps f = Inr f'"
  shows "f' = f \<or> (truthy_opt (get_prop f ''path'') \<and> has_string_content f
                    \<and> (\<exists>c. f' = set_content f c))"
  using assms
  by (auto simp: replace_in_file_def has_string_content_def
      split: if_splits option.splits jsval.splits sum.splits)

lemma replace_in_file_unchanged:
  assumes "replace_in_file rx reps f = Inr f'"
    and "\<not> truthy_opt (get_prop f ''path'') \<or> \<not> has_string_content f"
  shows "f' = f"
  using assms
  by (auto simp: replace_in_file_def has_string_content_def
      split: if_splits option.splits jsval.splits sum.splits)

lemma replaceInFiles_list_all2:
  "replaceInFiles rx files reps = Inr out
   \<Longrightarrow> list_all2 (\<lambda>f f'. replace_in_file rx reps f = Inr f') files out"
  by (induction files arbitrary: out) (auto split: sum.splits)

lemma apply_replacements_literal:
  "\<exists>c'. apply_replacements literal_token_engine reps c = Inr c'"
  by (induction reps arbitrary: c) (auto simp: literal_token_engine_def)

lemma replace_in_file_literal: "\<exists>f'. replace_in_file literal_token_engine reps f = Inr f'"
proof (cases "truthy_opt (get_prop f ''path'') \<and> has_string_content f")
  case True
  then obtain c where c: "get_prop f ''content'' = Some (JStr c)"
    by (auto simp: has_string_content_def split: option.splits jsval.splits)
  obtain c' where "apply_replacements literal_token_engine reps c = Inr c'"
    using apply_replacements_literal by blast
  with True c show ?thesis by (simp add: replace_in_file_def)
next
  case False
  then show ?thesis
    by (auto simp: replace_in_file_def has_string_content_def
        split: option.splits jsval.splits)
qed

lemma replaceInFiles_literal: "\<exists>out. replaceInFiles literal_token_engine files reps = Inr out"
proof (induction files)
  case Nil
  then show ?case by simp
next
  case (Cons f files)
  obtain f' where "replace_in_file literal_token_engine reps f = Inr f'"
    using replace_in_file_literal by blast
  with Cons show ?case by auto
qed

text \<open>
  Claim C10. Whatever the regular expression engine does with the keys, when
  \<^verbatim>\<open>replaceInFiles\<close> returns, the result has the entries of the input in the same
  order; every property of an entry other than \<^verbatim>\<open>content\<close> is as before, and so are
  the keys and their order; an entry is either unchanged or differs in its
  \<^verbatim>\<open>content\<close> only; and an entry without a truthy \<^verbatim>\<open>path\<close>, or whose content is not a
  string, is unchanged. With the literal tokens of the asset phase it always returns.
\<close>

theorem replaceInFiles_frame:
  "(replaceInFiles rx files replacements = Inr out \<longrightarrow>
      length out = length files
      \<and> (\<forall>i<length files.
            (\<forall>key. key \<noteq> ''content'' \<longrightarrow> get_prop (out ! i) key = get_prop (files ! i) key)
            \<and> obj_keys (out ! i) = obj_keys (files ! i)
            \<and> (out ! i = files ! i \<or> (\<exists>c. out ! i = set_content (files ! i) c))
            \<and> (\<not> truthy_opt (get_prop (files ! i) ''path'') \<or> \<not> has_string_content (files ! i)
                 \<longrightarrow> out ! i = files ! i)))
   \<and> (\<exists>out'. replaceInFiles literal_token_engine files replacements = Inr out')"
proof (intro conjI impI allI)
  assume r: "replaceInFiles rx files replacements = Inr out"
  from replaceInFiles_list_all2 [OF r]
  have l2: "list_all2 (\<lambda>f f'. replace_in_file rx replacements f = Inr f') files out" .
  then show "length out = length files" by (simp add: list_all2_lengthD)
  fix i assume i: "i < length files"
  have fi: "replace_in_file rx replacements (files ! i) = Inr (out ! i)"
    by (rule list_all2_nthD [OF l2 i])
  from replace_in_file_frame [OF fi]
  show "out ! i = files ! i \<or> (\<exists>c. out ! i = set_content (files ! i) c)" by blast
  show "obj_keys (out ! i) = obj_keys (files ! i)"
    using replace_in_file_frame [OF fi] set_content_keys by auto
  show "\<not> truthy_opt (get_prop (files ! i) ''path'') \<or> \<not> has_string_content (files ! i)
        \<Longrightarrow> out ! i = files ! i"
    using replace_in_file_unchanged [OF fi] by blast
  fix key :: string assume "key \<noteq> ''content''"
  then show "get_prop (out ! i) key = get_prop (files ! i) key"
    using replace_in_file_frame [OF fi] set_content_props by auto
next
  show "\<exists>out'. replaceInFiles literal_token_engine files replacements = Inr out'"
    by (rule replaceInFiles_literal)
qed

lemma example_files_replaced:
  "replaceInFiles literal_token_engine example_files example_replacements = Inr example_files_out"
  by code_simp

theorem replaceInFiles_frame_witness:
  "replaceInFiles literal_token_engine example_files example_replacements = Inr example_files_out
   \<and> length example_files_out = length example_files
   \<and> get_prop (example_files_out ! 0) ''path'' = get_prop (example_files ! 0) ''path''
   \<and> get_prop (example_files_out ! 0) ''note'' = get_prop (example_files ! 0) ''note''
   \<and> obj_keys (example_files_out ! 0) = obj_keys (example_files ! 0)
   \<and> example_files_out ! 0 \<noteq> example_files ! 0
   \<and> \<not> truthy_opt (get_prop (example_files ! 1) ''path'')
   \<and> example_files_out ! 1 = example_files ! 1
   \<and> \<not> has_string_content (example_files ! 2)
   \<and> example_files_out ! 2 = example_files ! 2
   \<and> \<not> truthy_opt (get_prop (example_files ! 3) ''path'')
   \<and> example_files_out ! 3 = example_files ! 3"
proof -
  have len: "length example_files = 4"
    by (simp add: example_files_def)
  have h: "\<not> truthy_opt (get_prop (example_files ! 1) ''path'')"
    "\<not> has_string_content (example_files ! 2)"
    "\<not> truthy_opt (get_prop (example_files ! 3) ''path'')"
    by (simp_all add: example_files_def truthy_opt_def has_string_content_def)
  have ne: "example_files_out ! 0 \<noteq> example_files ! 0"
    by (simp add: example_files_def example_files_out_def)
  from replaceInFiles_frame [of literal_token_engine example_files example_replacements
      example_files_out] example_files_replaced
  have fr: "length example_files_out = length example_files"
    "\<And>i. i < 4 \<Longrightarrow>
       (\<forall>key. key \<noteq> ''content''
          \<longrightarrow> get_prop (example_files_out ! i) key = get_prop (example_files ! i) key)
       \<and> obj_keys (example_files_out ! i) = obj_keys (example_files ! i)
       \<and> (\<not> truthy_opt (get_prop (example_files ! i) ''path'')
            \<or> \<not> has_string_content (example_files ! i)
          \<longrightarrow> example_files_out ! i = example_files ! i)"
    by (simp_all add: len)
  from fr(2) [of 0] fr(2) [of 1] fr(2) [of 2] fr(2) [of 3] fr(1) h ne example_files_replaced
  show ?thesis by simp
qed

section \<open>The asset phase: which needs it resolves, and when it fails\<close>

lemma decimal_small [simp]:
  "decimal (Suc 0) = ''1''" "decimal 2 = ''2''" "decimal 3 = ''3''"
  "decimal (Suc (Suc 0)) = ''2''" "decimal (Suc (Suc (Suc 0))) = ''3''"
  by code_simp+






























section \<open>Properties of the repair and of the spec phase\<close>

lemma find_path_well_typed:
  "entries_well_typed files \<Longrightarrow>
   find_path p files = Inr None \<or> (\<exists>i<length files. find_path p files = Inr (Some i))"
  by (induction files) (auto simp: entries_well_typed_def)

lemma find_path_bound: "find_path p files = Inr (Some i) \<Longrightarrow> i < length files"
  by (induction files arbitrary: i) (auto split: if_splits sum.splits option.splits)

lemma set_content_not_null: "f \<noteq> JNull \<Longrightarrow> set_content f c \<noteq> JNull"
  by (cases f) simp_all

lemma view_content_set_content: "view_content f \<noteq> NotAString \<Longrightarrow> view_content (set_content f c) \<noteq> NotAString"
  by (cases f) (simp_all add: view_content_def update_conv')

lemma get_prop_path_set_content: "get_prop (set_content f c) ''path'' = get_prop f ''path''"
  by (cases f) (simp_all add: update_conv')

lemma well_typed_update:
  "entries_well_typed files \<Longrightarrow> i < length files
   \<Longrightarrow> entries_well_typed (files[i := set_content (files ! i) c])"
  by (auto simp: entries_well_typed_def list_all_length nth_list_update
      set_content_not_null view_content_set_content)

lemma paths_update:
  "i < length files \<Longrightarrow> paths_of (files[i := set_content (files ! i) c]) = paths_of files"
  by (auto simp: paths_of_def list_eq_iff_nth_eq nth_list_update get_prop_path_set_content)

lemma step_okI:
  "r = Inr files \<or> (\<exists>i c. i < length files \<and> r = Inr (files[i := set_content (files ! i) c]))
   \<Longrightarrow> entries_well_typed files \<Longrightarrow> step_ok files r"
  by (auto simp: step_ok_def well_typed_update paths_update)

lemma expandAboutText_string:
  "about_is_string userData \<Longrightarrow>
   \<exists>t. expandAboutText (about_of userData) title skills = Inr t"
  by (auto simp: about_is_string_def about_of_def expandAboutText_def Let_def
      split: about_input.splits)

lemma ensure_about_string:
  "about_is_string userData \<Longrightarrow> \<exists>h f. ensure_about userData html = Inr (h, f)"
  using expandAboutText_string [of userData "title_of userData" "skills_of userData"]
  by (auto simp: ensure_about_def split: option.splits)

lemma fix_html_string:
  "about_is_string userData \<Longrightarrow> \<exists>h f. fix_html year userData content = Inr (h, f)"
proof -
  assume a: "about_is_string userData"
  obtain h2 f2 where e: "ensure_header userData (fix_empty_p userData (fix_empty_h3 userData
      (fix_empty_h2 userData (substitute_placeholders year userData content)))) = (h2, f2)"
    by (cases "ensure_header userData (fix_empty_p userData (fix_empty_h3 userData
      (fix_empty_h2 userData (substitute_placeholders year userData content))))")
  from ensure_about_string [OF a, of h2] obtain h3 f3 where
    "ensure_about userData h2 = Inr (h3, f3)" by blast
  with e show ?thesis by (simp add: fix_html_def Let_def split_beta)
qed

lemma repair_html_ok:
  "entries_well_typed files \<Longrightarrow> about_is_string userData
   \<Longrightarrow> step_ok files (repair_html year userData files)"
proof -
  assume wt: "entries_well_typed files" and ab: "about_is_string userData"
  from find_path_well_typed [OF wt, of "''index.html''"]
  consider "find_path ''index.html'' files = Inr None"
    | i where "i < length files" "find_path ''index.html'' files = Inr (Some i)" by blast
  then show ?thesis
  proof cases
    case 1
    then show ?thesis using wt by (auto intro!: step_okI simp: repair_html_def)
  next
    case 2
    with wt have "view_content (files ! i) \<noteq> NotAString"
      by (simp add: entries_well_typed_def list_all_length)
    then show ?thesis
    proof (cases "view_content (files ! i)")
      case NoContent
      with 2 wt show ?thesis by (auto intro!: step_okI simp: repair_html_def)
    next
      case (Content c)
      from fix_html_string [OF ab, of year c] obtain h f where
        "fix_html year userData c = Inr (h, f)" by blast
      with 2 wt Content show ?thesis by (auto intro!: step_okI simp: repair_html_def)
    qed simp
  qed
qed

lemma repair_css_ok: "entries_well_typed files \<Longrightarrow> step_ok files (repair_css userData files)"
proof -
  assume wt: "entries_well_typed files"
  from find_path_well_typed [OF wt, of "''styles.css''"]
  consider "find_path ''styles.css'' files = Inr None"
    | i where "i < length files" "find_path ''styles.css'' files = Inr (Some i)" by blast
  then show ?thesis
  proof cases
    case 1
    then show ?thesis using wt by (auto intro!: step_okI simp: repair_css_def)
  next
    case 2
    with wt have "view_content (files ! i) \<noteq> NotAString"
      by (simp add: entries_well_typed_def list_all_length)
    with 2 wt show ?thesis
      by (auto intro!: step_okI simp: repair_css_def Let_def split: content_view.splits)
  qed
qed

lemma repair_js_ok: "entries_well_typed files \<Longrightarrow> step_ok files (repair_js files)"
proof -
  assume wt: "entries_well_typed files"
  from find_path_well_typed [OF wt, of "''script.js''"]
  consider "find_path ''script.js'' files = Inr None"
    | i where "i < length files" "find_path ''script.js'' files = Inr (Some i)" by blast
  then show ?thesis
  proof cases
    case 1
    then show ?thesis using wt by (auto intro!: step_okI simp: repair_js_def)
  next
    case 2
    with wt have "view_content (files ! i) \<noteq> NotAString"
      by (simp add: entries_well_typed_def list_all_length)
    with 2 wt show ?thesis
      by (auto intro!: step_okI simp: repair_js_def split: content_view.splits)
  qed
qed

lemma validate_well_typed:
  assumes "m_files manifest = Some (JArr files)" and "entries_well_typed files"
    and "about_is_string userData"
  shows "\<exists>files'. validateAndEnhanceManifest year manifest userData
           = Inr (manifest\<lparr>m_files := Some (JArr files'),
                           m_accentPalette := Some (PaletteArray (paletteForAI userData))\<rparr>)
         \<and> entries_well_typed files' \<and> length files' = length files
         \<and> paths_of files' = paths_of files"
proof -
  from repair_html_ok [OF assms(2,3), of year]
  obtain f1 where f1: "repair_html year userData files = Inr f1" "entries_well_typed f1"
    "length f1 = length files" "paths_of f1 = paths_of files"
    by (auto simp: step_ok_def split: sum.splits)
  from repair_css_ok [OF f1(2), of userData]
  obtain f2 where f2: "repair_css userData f1 = Inr f2" "entries_well_typed f2"
    "length f2 = length f1" "paths_of f2 = paths_of f1"
    by (auto simp: step_ok_def split: sum.splits)
  from repair_js_ok [OF f2(2)]
  obtain f3 where f3: "repair_js f2 = Inr f3" "entries_well_typed f3"
    "length f3 = length f2" "paths_of f3 = paths_of f2"
    by (auto simp: step_ok_def split: sum.splits)
  show ?thesis
    using assms(1) f1 f2 f3
    by (auto simp: validateAndEnhanceManifest_def intro!: exI [of _ f3])
qed

lemma validate_no_files:
  "(\<forall>files. m_files manifest \<noteq> Some (JArr files))
   \<Longrightarrow> validateAndEnhanceManifest year manifest userData = Inl files_error"
  by (auto simp: validateAndEnhanceManifest_def files_error_def
      split: option.splits jsval.splits)

text \<open>
  Claim C1, as the code has it. The repair returns a manifest whenever \<^verbatim>\<open>files\<close> is an
  array whose entries are well typed and the \<^verbatim>\<open>about\<close> of the brief is a string or
  absent: the result has the same entries with the same paths, in the same order, and the
  resolved palette. When \<^verbatim>\<open>files\<close> is not an array the repair raises an error instead of
  returning.
\<close>

theorem repair_total_on_file_arrays:
  "(m_files manifest = Some (JArr files) \<and> entries_well_typed files
      \<and> about_is_string userData \<longrightarrow>
      (\<exists>files'. validateAndEnhanceManifest year manifest userData
           = Inr (manifest\<lparr>m_files := Some (JArr files'),
                           m_accentPalette := Some (PaletteArray (paletteForAI userData))\<rparr>)
         \<and> length files' = length files \<and> paths_of files' = paths_of files))
   \<and> ((\<forall>files. m_files manifest \<noteq> Some (JArr files))
        \<longrightarrow> validateAndEnhanceManifest year manifest userData = Inl files_error)"
  using validate_well_typed [of manifest files userData year] validate_no_files [of manifest]
  by blast

lemma extracted_files_well_typed: "entries_well_typed extracted_files"
  by (simp add: entries_well_typed_def extracted_files_def view_content_def)

lemma ada_about_string: "about_is_string ada_brief"
  by (simp add: about_is_string_def ada_brief_def)

theorem repair_total_on_file_arrays_witness:
  "m_files extracted_manifest = Some (JArr extracted_files)
   \<and> entries_well_typed extracted_files
   \<and> about_is_string ada_brief
   \<and> (\<exists>files'. validateAndEnhanceManifest 2025 extracted_manifest ada_brief
           = Inr (extracted_manifest\<lparr>m_files := Some (JArr files'),
                    m_accentPalette := Some (PaletteArray (paletteForAI ada_brief))\<rparr>)
         \<and> length files' = length extracted_files)
   \<and> (\<forall>files. m_files minimal_manifest \<noteq> Some (JArr files))
   \<and> validateAndEnhanceManifest 2025 minimal_manifest ada_brief = Inl files_error"
proof -
  have a: "m_files extracted_manifest = Some (JArr extracted_files)"
    by (simp add: extracted_manifest_def)
  have c: "\<forall>files. m_files minimal_manifest \<noteq> Some (JArr files)"
    by (simp add: minimal_manifest_def)
  from repair_total_on_file_arrays [of extracted_manifest extracted_files ada_brief 2025]
    repair_total_on_file_arrays [of minimal_manifest extracted_files ada_brief 2025]
    a c extracted_files_well_typed ada_about_string
  show ?thesis by blast
qed

text \<open>
  The claim as stated fails. On a manifest without a \<^verbatim>\<open>files\<close> array the repair raises
  an error. And on a manifest with a \<^verbatim>\<open>files\<close> array of well-typed entries it raises a
  type error when the \<^verbatim>\<open>about\<close> of the brief is a number and the page needs an about
  region.
\<close>

lemma main_fix_html:
  "fix_html 2025 number_brief ''<main></main>''
   = Inl (type_error ''aboutText.trim is not a function'')"
  by code_simp

theorem repair_rejects_missing_files_counterexample:
  "validateAndEnhanceManifest 2025 minimal_manifest ada_brief = Inl files_error
   \<and> (\<exists>files. m_files main_manifest = Some (JArr files) \<and> entries_well_typed files)
   \<and> validateAndEnhanceManifest 2025 main_manifest number_brief
     = Inl (type_error ''aboutText.trim is not a function'')"
proof -
  have a: "validateAndEnhanceManifest 2025 minimal_manifest ada_brief = Inl files_error"
    by (simp add: validateAndEnhanceManifest_def minimal_manifest_def files_error_def)
  have b: "\<exists>files. m_files main_manifest = Some (JArr files) \<and> entries_well_typed files"
    by (simp add: main_manifest_def entries_well_typed_def view_content_def)
  have c: "validateAndEnhanceManifest 2025 main_manifest number_brief
     = Inl (type_error ''aboutText.trim is not a function'')"
    by (simp add: validateAndEnhanceManifest_def main_manifest_def repair_html_def
        view_content_def main_fix_html)
  from a b c show ?thesis by simp
qed

text \<open>
  With no global of the name \<^verbatim>\<open>paletteForAI\<close>, the spec phase stores no manifest and does
  not answer with success, whatever the manifest and the brief.
\<close>

lemma spec_phase_unstored:
  "snd (generate_spec_after_extract None year manifest userData) = None
   \<and> fst (generate_spec_after_extract None year manifest userData) \<noteq> Ok_response"
  by (simp add: generate_spec_after_extract_def split: sum.splits)

text \<open>
  Claim C2. The hero image prompt is to be overwritten after the repair; the route reads
  \<^verbatim>\<open>paletteForAI\<close> to build it, and that identifier is out of scope in the handler. For
  a well-formed extracted manifest and brief the route ends in a reference error and
  stores nothing, so no hero image prompt is set.
\<close>

theorem spec_phase_reference_error:
  "generate_spec_after_extract paletteForAI_global 2025 extracted_manifest ada_brief
   = (Error_response 500 (reference_error ''paletteForAI''), None)"
proof -
  from validate_well_typed [of "extracted_manifest\<lparr>m_userData := Some ada_brief\<rparr>"
      extracted_files ada_brief 2025, OF _ extracted_files_well_typed ada_about_string]
  obtain m' where "validateAndEnhanceManifest 2025
      (extracted_manifest\<lparr>m_userData := Some ada_brief\<rparr>) ada_brief = Inr m'"
    by (auto simp: extracted_manifest_def)
  then show ?thesis
    by (simp add: generate_spec_after_extract_def paletteForAI_global_def)
qed

text \<open>
  Claim C6. The project image prompts are to be normalised after the repair, in the same
  block that reads \<^verbatim>\<open>paletteForAI\<close>. The route ends in the reference error before it
  reaches that block: for an extracted manifest that brings one prompt nothing is stored,
  so no list of three prompts is; and no manifest and no brief gets a manifest stored.
\<close>

theorem project_prompts_never_stored:
  "generate_spec_after_extract paletteForAI_global 2025 prompted_manifest ada_brief
   = (Error_response 500 (reference_error ''paletteForAI''), None)
   \<and> (\<forall>year manifest userData.
         snd (generate_spec_after_extract paletteForAI_global year manifest userData) = None)"
proof -
  from validate_well_typed [of "prompted_manifest\<lparr>m_userData := Some ada_brief\<rparr>"
      extracted_files ada_brief 2025, OF _ extracted_files_well_typed ada_about_string]
  obtain m' where "validateAndEnhanceManifest 2025
      (prompted_manifest\<lparr>m_userData := Some ada_brief\<rparr>) ada_brief = Inr m'"
    by (auto simp: prompted_manifest_def extracted_manifest_def)
  then have "generate_spec_after_extract paletteForAI_global 2025 prompted_manifest ada_brief
   = (Error_response 500 (reference_error ''paletteForAI''), None)"
    by (simp add: generate_spec_after_extract_def paletteForAI_global_def)
  then show ?thesis
    by (simp add: spec_phase_unstored paletteForAI_global_def)
qed
section \<open>Round trip of the extractor\<close>

lemma find_first_fence_skip:
  "backtick \<notin> set pre \<Longrightarrow> find_first fence (pre @ fence @ post) = Some (pre, post)"
  by (induction pre) (auto simp: fence_def prefix_Cons)

lemma str_includes_prefix: "prefix pat s \<Longrightarrow> str_includes s pat"
  by (cases s) auto

lemma find_first_no_fence:
  "\<not> str_includes t fence \<Longrightarrow> t \<noteq> [] \<Longrightarrow> last t \<noteq> backtick
   \<Longrightarrow> find_first fence (t @ r)
       = (case find_first fence r of None \<Rightarrow> None | Some (a, b) \<Rightarrow> Some (t @ a, b))"
proof (induction t)
  case Nil
  then show ?case by simp
next
  case (Cons c t)
  have np: "\<not> prefix fence (c # t @ r)"
  proof
    assume p: "prefix fence (c # t @ r)"
    then have c: "c = backtick" by (simp add: fence_def prefix_Cons)
    show False
    proof (cases t)
      case Nil
      with Cons.prems c show False by simp
    next
      case (Cons x t')
      note t = this
      show False
      proof (cases t')
        case Nil
        with t p Cons.prems show False by (simp add: fence_def prefix_Cons)
      next
        case (Cons y t'')
        with t p have "prefix fence (c # x # y # t'')"
          by (auto simp: fence_def prefix_Cons)
        with t Cons Cons.prems(1) show False by auto
      qed
    qed
  qed
  show ?case
  proof (cases "t = []")
    case True
    with np show ?thesis by (auto split: option.splits)
  next
    case False
    with Cons.prems have "\<not> str_includes t fence" "last t \<noteq> backtick" by auto
    with Cons.IH False have "find_first fence (t @ r)
       = (case find_first fence r of None \<Rightarrow> None | Some (a, b) \<Rightarrow> Some (t @ a, b))" by simp
    with np show ?thesis by (auto split: option.splits)
  qed
qed

lemma trim_padded:
  assumes "t \<noteq> []" "\<not> is_space (hd t)" "\<not> is_space (last t)" "list_all is_space ws"
  shows "trim (t @ ws) = t"
proof -
  from assms have a: "dropWhile is_space (t @ ws) = t @ ws"
    by (cases t) auto
  from assms have b: "dropWhile is_space (rev ws @ rev t) = dropWhile is_space (rev t)"
    by (intro dropWhile_append2) (auto simp: list_all_iff)
  from assms have c: "dropWhile is_space (rev t) = rev t"
    by (cases "rev t") (auto simp: last_rev hd_rev)
  show ?thesis by (simp add: trim_def a b c)
qed

lemma object_text_not_space:
  "object_text t \<Longrightarrow> t \<noteq> [] \<and> \<not> is_space (hd t) \<and> \<not> is_space (last t) \<and> last t \<noteq> backtick"
  by (simp add: object_text_def is_space_def backtick_def)

lemma skip_tag:
  assumes "is_json_tag tag" "list_all is_space ws1" "object_text t"
  shows "dropWhile is_space (skip_json_tag (tag @ ws1 @ t @ r)) = t @ r"
proof -
  from assms(3) have t: "t \<noteq> []" "\<not> is_space (hd t)" "hd t = CHR ''{''"
    by (simp_all add: object_text_def is_space_def)
  have dw: "dropWhile is_space (ws1 @ t @ r) = t @ r"
    using assms(2) t by (cases t) (auto simp: dropWhile_append2 list_all_iff)
  show ?thesis
  proof (cases "tag = []")
    case True
    have "map ascii_lower (take 4 (ws1 @ t @ r)) \<noteq> ''json''"
    proof (cases ws1)
      case Nil
      with t show ?thesis by (cases t) (auto simp: ascii_lower_def)
    next
      case (Cons w ws)
      with assms(2) have "is_space w" by simp
      then have "ascii_lower w \<noteq> CHR ''j''"
        by (auto simp: is_space_def ascii_lower_def Let_def)
      with Cons show ?thesis by auto
    qed
    with True dw show ?thesis by (simp add: skip_json_tag_def)
  next
    case False
    with assms(1) have m: "map ascii_lower tag = ''json''" by (simp add: is_json_tag_def)
    then have "length (map ascii_lower tag) = 4" by simp
    then have "length tag = 4" by simp
    with m dw show ?thesis by (simp add: skip_json_tag_def)
  qed
qed

lemma fenced_block_wrapped:
  assumes "object_text t" "\<not> str_includes t fence" "is_json_tag tag" "list_all is_space ws1"
    "list_all is_space ws2" "backtick \<notin> set pre"
  shows "fenced_block (pre @ fence @ tag @ ws1 @ t @ ws2 @ fence @ post) = Some (t @ ws2)"
proof -
  have a: "find_first fence (pre @ fence @ tag @ ws1 @ t @ ws2 @ fence @ post)
           = Some (pre, tag @ ws1 @ t @ ws2 @ fence @ post)"
    using find_first_fence_skip [OF assms(6)] by simp
  have b: "dropWhile is_space (skip_json_tag (tag @ ws1 @ t @ ws2 @ fence @ post))
           = t @ ws2 @ fence @ post"
    using skip_tag [OF assms(3,4,1)] by simp
  from assms(5) have "backtick \<notin> set ws2"
    by (auto simp: list_all_iff is_space_def backtick_def)
  then have c: "find_first fence (ws2 @ fence @ post) = Some (ws2, post)"
    by (rule find_first_fence_skip)
  from object_text_not_space [OF assms(1)] assms(2)
  have d: "find_first fence (t @ ws2 @ fence @ post) = Some (t @ ws2, post)"
    by (simp add: find_first_no_fence c)
  show ?thesis by (simp add: fenced_block_def a b d)
qed

lemma indexOf_first: "c \<notin> set pre \<Longrightarrow> indexOf c (pre @ c # r) = Some (length pre)"
  by (induction pre) auto

lemma brace_slice:
  assumes "object_text t" "CHR ''{'' \<notin> set pre" "CHR ''}'' \<notin> set post"
  shows "indexOf CHR ''{'' (pre @ t @ post) = Some (length pre)"
    and "lastIndexOf CHR ''}'' (pre @ t @ post) = Some (length pre + length t - 1)"
    and "slice (pre @ t @ post) (length pre) (length pre + length t - 1 + 1) = t"
proof -
  from assms(1) obtain t' where t1: "t = CHR ''{'' # t'"
    by (cases t) (auto simp: object_text_def)
  from assms(1) obtain t'' where t2: "t = t'' @ [CHR ''}'']"
    by (metis object_text_def append_butlast_last_id)
  show "indexOf CHR ''{'' (pre @ t @ post) = Some (length pre)"
    using indexOf_first [OF assms(2)] t1 by simp
  have "rev (pre @ t @ post) = rev post @ CHR ''}'' # (rev t'' @ rev pre)"
    by (simp add: t2)
  moreover from assms(3) have "CHR ''}'' \<notin> set (rev post)" by simp
  ultimately have "indexOf CHR ''}'' (rev (pre @ t @ post)) = Some (length post)"
    using indexOf_first [of "CHR ''}''" "rev post"] by simp
  then show "lastIndexOf CHR ''}'' (pre @ t @ post) = Some (length pre + length t - 1)"
    by (simp add: lastIndexOf_def)
  from assms(1) have "t \<noteq> []" by (simp add: object_text_def)
  then show "slice (pre @ t @ post) (length pre) (length pre + length t - 1 + 1) = t"
    by (simp add: slice_def)
qed

text \<open>
  Claim C8, as the code has it. Let the text \<open>t\<close> be read by the parser as \<open>m\<close>. The
  extractor gives \<open>m\<close> back on \<open>t\<close> itself when \<open>t\<close> holds no pair of fences; on \<open>t\<close>
  inside a code fence, when \<open>t\<close> is the text of an object without a fence of its own and
  no backtick comes before the opening fence; and on \<open>t\<close> amid prose, when \<open>t\<close> is the
  text of an object, the whole holds no pair of fences, no opening brace comes before
  \<open>t\<close> and no closing brace after it, and the whole is not itself read as another
  value.
\<close>

theorem extract_roundtrip:
  "parse t = Some m \<longrightarrow>
     (t \<noteq> [] \<and> fenced_block t = None \<longrightarrow> robustJsonExtract parse t = Inr m)
   \<and> (object_text t \<and> \<not> str_includes t fence \<and> is_json_tag tag \<and> list_all is_space ws1
        \<and> list_all is_space ws2 \<and> backtick \<notin> set pre
      \<longrightarrow> robustJsonExtract parse (pre @ fence @ tag @ ws1 @ t @ ws2 @ fence @ post) = Inr m)
   \<and> (object_text t \<and> fenced_block (lead @ t @ trail) = None \<and> CHR ''{'' \<notin> set lead
        \<and> CHR ''}'' \<notin> set trail
        \<and> (parse (lead @ t @ trail) = None \<or> parse (lead @ t @ trail) = Some m)
      \<longrightarrow> robustJsonExtract parse (lead @ t @ trail) = Inr m)"
proof (intro impI conjI)
  assume p: "parse t = Some m"
  { assume "t \<noteq> [] \<and> fenced_block t = None"
    with p show "robustJsonExtract parse t = Inr m"
      by (simp add: robustJsonExtract_def) }
  { assume h: "object_text t \<and> \<not> str_includes t fence \<and> is_json_tag tag
        \<and> list_all is_space ws1 \<and> list_all is_space ws2 \<and> backtick \<notin> set pre"
    then have fb: "fenced_block (pre @ fence @ tag @ ws1 @ t @ ws2 @ fence @ post) = Some (t @ ws2)"
      by (simp add: fenced_block_wrapped)
    from h object_text_not_space [of t] have tr: "trim (t @ ws2) = t"
      by (simp add: trim_padded)
    have ne: "pre @ fence @ tag @ ws1 @ t @ ws2 @ fence @ post \<noteq> []"
      by (simp add: fence_def)
    show "robustJsonExtract parse (pre @ fence @ tag @ ws1 @ t @ ws2 @ fence @ post) = Inr m"
      using ne fb tr p by (simp add: robustJsonExtract_def) }
  { assume h: "object_text t \<and> fenced_block (lead @ t @ trail) = None
        \<and> CHR ''{'' \<notin> set lead \<and> CHR ''}'' \<notin> set trail
        \<and> (parse (lead @ t @ trail) = None \<or> parse (lead @ t @ trail) = Some m)"
    then have ne: "lead @ t @ trail \<noteq> []" by (simp add: object_text_def)
    from h brace_slice [of t lead trail]
    have bs: "indexOf CHR ''{'' (lead @ t @ trail) = Some (length lead)"
      "lastIndexOf CHR ''}'' (lead @ t @ trail) = Some (length lead + length t - 1)"
      "slice (lead @ t @ trail) (length lead) (length lead + length t - 1 + 1) = t"
      by simp_all
    from h consider "parse (lead @ t @ trail) = None" | "parse (lead @ t @ trail) = Some m"
      by auto
    then show "robustJsonExtract parse (lead @ t @ trail) = Inr m"
    proof cases
      case 1
      with h ne bs p show ?thesis by (simp add: robustJsonExtract_def)
    next
      case 2
      with h ne show ?thesis by (simp add: robustJsonExtract_def)
    qed }
qed

lemma readme_roundtrip: "json_parse (json_stringify readme_manifest) = Some readme_manifest"
  by code_simp

lemma small_roundtrip: "json_parse (json_stringify small_manifest) = Some small_manifest"
  by code_simp

lemma readme_extract:
  "robustJsonExtract json_parse (json_stringify readme_manifest)
   = Inl (new_Error ''Invalid JSON from model'')"
proof -
  have ne: "json_stringify readme_manifest \<noteq> []" by code_simp
  have fb: "fenced_block (json_stringify readme_manifest) = Some readme_block" by code_simp
  have tr: "trim readme_block = readme_block" by code_simp
  have p: "json_parse readme_block = None" by code_simp
  have i: "indexOf CHR ''{'' readme_block = None" by code_simp
  show ?thesis by (simp add: robustJsonExtract_def ne fb tr p i)
qed

lemma prose_extract:
  "robustJsonExtract json_parse prose_text = Inl (new_Error ''Invalid JSON from model'')"
proof -
  have ne: "prose_text \<noteq> []" by code_simp
  have fb: "fenced_block prose_text = None" by code_simp
  have p: "json_parse prose_text = None" by code_simp
  have i: "indexOf CHR ''{'' prose_text = Some 8" by code_simp
  have l: "lastIndexOf CHR ''}'' prose_text = Some 93" by code_simp
  have q: "json_parse (slice prose_text 8 94) = None" by code_simp
  show ?thesis by (simp add: robustJsonExtract_def ne fb p i l q)
qed

lemma small_text_facts:
  "json_stringify small_manifest \<noteq> []"
  "fenced_block (json_stringify small_manifest) = None"
  "object_text (json_stringify small_manifest)"
  "\<not> str_includes (json_stringify small_manifest) fence"
  "fenced_block (''Here you go: '' @ json_stringify small_manifest @ '' Enjoy!'') = None"
  "json_parse (''Here you go: '' @ json_stringify small_manifest @ '' Enjoy!'') = None"
  by code_simp+

theorem extract_roundtrip_witness:
  "json_parse (json_stringify small_manifest) = Some small_manifest
   \<and> json_stringify small_manifest \<noteq> []
   \<and> fenced_block (json_stringify small_manifest) = None
   \<and> robustJsonExtract json_parse (json_stringify small_manifest) = Inr small_manifest
   \<and> object_text (json_stringify small_manifest)
   \<and> \<not> str_includes (json_stringify small_manifest) fence
   \<and> is_json_tag ''JSON''
   \<and> list_all is_space [nl]
   \<and> backtick \<notin> set ''Here you go:''
   \<and> robustJsonExtract json_parse
         (''Here you go:'' @ fence @ ''JSON'' @ [nl] @ json_stringify small_manifest @ [nl]
          @ fence @ '' Enjoy!'') = Inr small_manifest
   \<and> fenced_block (''Here you go: '' @ json_stringify small_manifest @ '' Enjoy!'') = None
   \<and> CHR ''{'' \<notin> set ''Here you go: ''
   \<and> CHR ''}'' \<notin> set '' Enjoy!''
   \<and> json_parse (''Here you go: '' @ json_stringify small_manifest @ '' Enjoy!'') = None
   \<and> robustJsonExtract json_parse
         (''Here you go: '' @ json_stringify small_manifest @ '' Enjoy!'') = Inr small_manifest"
proof -
  have tag: "is_json_tag ''JSON''" by code_simp
  have ws: "list_all is_space [nl]" by code_simp
  have bt: "backtick \<notin> set ''Here you go:''" by (simp add: backtick_def)
  from extract_roundtrip [of json_parse "json_stringify small_manifest" small_manifest
      "''JSON''" "[nl]" "[nl]" "''Here you go:''" "'' Enjoy!''" "''Here you go: ''" "'' Enjoy!''"]
    small_roundtrip small_text_facts tag ws bt
  show ?thesis by simp
qed

text \<open>
  The claim as stated fails. A manifest whose file content holds a fenced block is read
  back by the parser from its own text, yet the extractor takes the inner block for the
  payload and fails. And prose with braces of its own around a valid payload makes the
  extractor fail as well.
\<close>

theorem extract_roundtrip_counterexample:
  "json_parse (json_stringify readme_manifest) = Some readme_manifest
   \<and> robustJsonExtract json_parse (json_stringify readme_manifest)
       = Inl (new_Error ''Invalid JSON from model'')
   \<and> json_parse (json_stringify small_manifest) = Some small_manifest
   \<and> robustJsonExtract json_parse
         (''Here is {your} site: '' @ json_stringify small_manifest @ '' Enjoy!'')
       = Inl (new_Error ''Invalid JSON from model'')"
  using readme_roundtrip readme_extract small_roundtrip prose_extract
  by (simp add: prose_text_def)

section \<open>Repairing twice\<close>





lemma path_is_object: "get_prop f ''path'' = Some v \<Longrightarrow> \<exists>kvs. f = JObj kvs"
  by (cases f) simp_all


lemma split_on_nonempty: "split_on sep s \<noteq> []"
  by (induction s) (auto split: list.splits)

lemma length_split_on_append:
  "length (split_on sep (a @ sep # b)) = length (split_on sep a) + length (split_on sep b)"
  by (induction a) (auto split: list.splits simp: split_on_nonempty)

lemma line_count_pos: "1 \<le> line_count s"
  using split_on_nonempty [of nl s] by (cases "split_on nl s") (simp_all add: line_count_def)

lemma line_count_join: "xs \<noteq> [] \<Longrightarrow> length xs \<le> line_count (join [nl] xs)"
proof (induction xs)
  case Nil
  then show ?case by simp
next
  case (Cons x xs)
  show ?case
  proof (cases xs)
    case Nil
    then show ?thesis using line_count_pos [of x] by simp
  next
    case (Cons y ys)
    with Cons.IH have "length xs \<le> line_count (join [nl] xs)" by simp
    moreover have "line_count (join [nl] (x # xs)) = line_count x + line_count (join [nl] xs)"
      using length_split_on_append [of nl x "join [nl] xs"] Cons by (simp add: line_count_def)
    ultimately show ?thesis using line_count_pos [of x] by simp
  qed
qed

lemma enhancedCss_lines: "100 \<le> line_count (enhancedCss userData)"
proof -
  have "length (enhancedCss_lines a b c) = 323" for a b c
    by (simp add: enhancedCss_lines_def)
  note len = this
  let ?ls = "enhancedCss_lines (accent_of userData) (accentSecondary_of userData)
      (accentTertiary_of userData)"
  from len [of "accent_of userData" "accentSecondary_of userData" "accentTertiary_of userData"]
  have "?ls \<noteq> []" by auto
  from line_count_join [OF this] len show ?thesis
    by (simp add: enhancedCss_def)
qed
































end
